theory Spec2Isabelle
  imports Complex_Main "HOL-Library.Sublist"
begin

section \<open>JavaScript strings\<close>

text \<open>
  Strings are lists of characters. The source's strings are taken to be ASCII, where
  JavaScript's case mapping, its white space (\<open>\s\<close>, \<open>trim\<close>) and its digits
  (\<open>\d\<close>) are the ones defined here.
\<close>

definition lowers :: string where
  "lowers = ''abcdefghijklmnopqrstuvwxyz''"

definition uppers :: string where
  "uppers = ''ABCDEFGHIJKLMNOPQRSTUVWXYZ''"

definition toUpperChar :: "char \<Rightarrow> char" where
  "toUpperChar c = (case map_of (zip lowers uppers) c of Some u \<Rightarrow> u | None \<Rightarrow> c)"

definition toLowerChar :: "char \<Rightarrow> char" where
  "toLowerChar c = (case map_of (zip uppers lowers) c of Some l \<Rightarrow> l | None \<Rightarrow> c)"

definition toUpperCase :: "string \<Rightarrow> string" where
  "toUpperCase s = map toUpperChar s"

definition toLowerCase :: "string \<Rightarrow> string" where
  "toLowerCase s = map toLowerChar s"

definition isSpace :: "char \<Rightarrow> bool" where
  "isSpace c = (c \<in> set [CHR 0x09, CHR 0x0A, CHR 0x0B, CHR 0x0C, CHR 0x0D, CHR '' ''])"

definition isDigit :: "char \<Rightarrow> bool" where
  "isDigit c = (c \<in> set ''0123456789'')"

definition isHexDigit :: "char \<Rightarrow> bool" where
  "isHexDigit c = (c \<in> set ''0123456789abcdefABCDEF'')"

definition isUpperLetter :: "char \<Rightarrow> bool" where
  "isUpperLetter c = (c \<in> set uppers)"

text \<open>\<open>String.prototype.trim\<close>.\<close>

definition trim :: "string \<Rightarrow> string" where
  "trim s = rev (dropWhile isSpace (rev (dropWhile isSpace s)))"

text \<open>\<open>s.startsWith(p)\<close> and \<open>s.includes(p)\<close>.\<close>

definition startsWith :: "string \<Rightarrow> string \<Rightarrow> bool" where
  "startsWith s p = (take (length p) s = p)"

fun includes_str :: "string \<Rightarrow> string \<Rightarrow> bool" where
  "includes_str [] p = (p = [])"
| "includes_str (c # cs) p = (startsWith (c # cs) p \<or> includes_str cs p)"

text \<open>\<open>s.split('.').pop()\<close>: the text after the last dot, the whole string without one.\<close>

definition split_pop :: "char \<Rightarrow> string \<Rightarrow> string" where
  "split_pop sep s = rev (takeWhile (\<lambda>c. c \<noteq> sep) (rev s))"

text \<open>\<open>s.replace(/\s+/g, '_')\<close>: every maximal run of white space becomes one underscore.\<close>

function replace_spaces :: "string \<Rightarrow> string" where
  "replace_spaces [] = []"
| "replace_spaces (c # cs) =
     (if isSpace c then CHR ''_'' # replace_spaces (dropWhile isSpace cs)
      else c # replace_spaces cs)"
  by pat_completeness auto
termination
  by (relation "measure length") (auto simp: length_dropWhile_le less_Suc_eq_le)

text \<open>The decimal rendering of a natural number, as a template literal produces it.\<close>

definition digit_char :: "nat \<Rightarrow> char" where
  "digit_char d = ''0123456789'' ! d"

fun digits_of :: "nat \<Rightarrow> string" where
  "digits_of n = (if n < 10 then [digit_char n] else digits_of (n div 10) @ [digit_char (n mod 10)])"

declare digits_of.simps [simp del]

text \<open>\<open>xs.join(sep)\<close>.\<close>

fun join :: "string \<Rightarrow> string list \<Rightarrow> string" where
  "join sep [] = []"
| "join sep [x] = x"
| "join sep (x # y # ys) = x @ sep @ join sep (y # ys)"

section \<open>Errors and the error middleware\<close>

text \<open>
  An error object as the handlers see it: \<open>name\<close>, \<open>message\<close>, the \<open>statusCode\<close>
  that \<open>createError\<close> sets, and \<open>status\<close>, which \<open>createError\<close> sets to a string and
  the OCR vendor's client library sets to the upstream HTTP status.
\<close>

datatype status_val = StatusUndefined | StatusNum nat | StatusStr string

record ApiError =
  name :: string
  message :: string
  statusCode :: "nat option"
  status :: status_val

definition createError :: "string \<Rightarrow> nat \<Rightarrow> ApiError" where
  "createError msg code =
     \<lparr>name = ''Error'', message = msg, statusCode = Some code,
      status = StatusStr (if startsWith (digits_of code) ''4'' then ''fail'' else ''error'')\<rparr>"

text \<open>\<open>new Error(msg)\<close> and the errors a built-in throws: no status of either kind.\<close>

definition plainError :: "string \<Rightarrow> string \<Rightarrow> ApiError" where
  "plainError n msg = \<lparr>name = n, message = msg, statusCode = None, status = StatusUndefined\<rparr>"

text \<open>
  What \<open>errorHandler\<close> sends: the HTTP status and \<open>error.message\<close> of the JSON body
  (the stack trace added in development mode is left out).
\<close>

record error_response =
  res_status :: nat
  res_message :: string

definition errorHandler :: "ApiError \<Rightarrow> error_response" where
  "errorHandler err =
     (let r0 = \<lparr>res_status = (case statusCode err of None \<Rightarrow> 500 | Some n \<Rightarrow> if n = 0 then 500 else n),
                res_message = (if message err = [] then ''Internal Server Error'' else message err)\<rparr>;
          r1 = (if name err = ''MulterError'' then
                  (if includes_str (message err) ''File too large''
                   then \<lparr>res_status = 413, res_message = ''File too large. Maximum size is 10MB.''\<rparr>
                   else if includes_str (message err) ''Unexpected field''
                   then \<lparr>res_status = 400, res_message = ''Invalid file field name.''\<rparr>
                   else \<lparr>res_status = 400, res_message = ''File upload error: '' @ message err\<rparr>)
                else r0);
          r2 = (if name err = ''ValidationError''
                then \<lparr>res_status = 400, res_message = ''Validation Error: '' @ message err\<rparr>
                else r1);
          r3 = (if includes_str (message err) ''Anthropic''
                then \<lparr>res_status = 503,
                      res_message = ''OCR service temporarily unavailable. Please try again later.''\<rparr>
                else r2)
      in r3)"

section \<open>The OCR client\<close>

subsection \<open>Parsed JSON\<close>

text \<open>
  The values \<open>JSON.parse\<close> returns. A number is kept as the two things the code observes
  of it: whether it is truthy (neither zero nor NaN) and the text \<open>String(n)\<close> gives.
  An object is the list of its entries in the order of \<open>Object.keys\<close>.
\<close>

datatype json =
    JNull
  | JBool bool
  | JNum bool string
  | JStr string
  | JArr "json list"
  | JObj "(string \<times> json) list"

fun truthy :: "json \<Rightarrow> bool" where
  "truthy JNull = False"
| "truthy (JBool b) = b"
| "truthy (JNum nonzero s) = nonzero"
| "truthy (JStr s) = (s \<noteq> [])"
| "truthy (JArr xs) = True"
| "truthy (JObj kvs) = True"

text \<open>\<open>String(v)\<close>; an array joins its elements with commas, \<open>null\<close> elements as empty text.\<close>

fun toString :: "json \<Rightarrow> string" where
  "toString JNull = ''null''"
| "toString (JBool b) = (if b then ''true'' else ''false'')"
| "toString (JNum nonzero s) = s"
| "toString (JStr s) = s"
| "toString (JArr xs) = join '','' (map (\<lambda>e. if e = JNull then [] else toString e) xs)"
| "toString (JObj kvs) = ''[object Object]''"

text \<open>
  \<open>Object.keys(data)\<close> with \<open>data[key]\<close>: the entries of an object, the indexed elements
  of an array or string, nothing for a number or boolean; \<open>null\<close> throws a TypeError.
\<close>

fun entries :: "json \<Rightarrow> (string \<times> json) list option" where
  "entries JNull = None"
| "entries (JBool b) = Some []"
| "entries (JNum nonzero s) = Some []"
| "entries (JStr s) = Some (zip (map digits_of [0..<length s]) (map (\<lambda>c. JStr [c]) s))"
| "entries (JArr xs) = Some (zip (map digits_of [0..<length xs]) xs)"
| "entries (JObj kvs) = Some kvs"

subsection \<open>Normalisation of the extracted fields\<close>

definition fieldMappings_table :: "(string \<times> string) list" where
  "fieldMappings_table =
    [(''id'', ''id''),
     (''id_number'', ''id''),
     (''identification'', ''id''),
     (''license'', ''id''),
     (''last_name'', ''lastName''),
     (''surname'', ''lastName''),
     (''family_name'', ''lastName''),
     (''first_name'', ''firstName''),
     (''given_name'', ''firstName''),
     (''middle_initial'', ''middleInitial''),
     (''middle_name'', ''middleInitial''),
     (''address_street'', ''addressStreet''),
     (''street'', ''addressStreet''),
     (''address'', ''addressStreet''),
     (''address_city'', ''addressCity''),
     (''city'', ''addressCity''),
     (''address_state'', ''addressState''),
     (''state'', ''addressState''),
     (''address_zip'', ''addressZip''),
     (''zip'', ''addressZip''),
     (''zipcode'', ''addressZip''),
     (''postal_code'', ''addressZip''),
     (''sex'', ''sex''),
     (''gender'', ''sex''),
     (''dob'', ''dob''),
     (''date_of_birth'', ''dob''),
     (''birth_date'', ''dob'')]"

text \<open>
  \<open>fieldMappings[k]\<close> on the dictionary's own keys (a key that names a property every
  object inherits, such as \<open>constructor\<close>, is outside this model).
\<close>

definition fieldMappings :: "string \<Rightarrow> string option" where
  "fieldMappings k = map_of fieldMappings_table k"

text \<open>The per-field cleanup of the trimmed value.\<close>

definition cleanValue :: "string \<Rightarrow> string \<Rightarrow> string" where
  "cleanValue normalizedKey v =
     (if normalizedKey = ''middleInitial'' then take 1 (toUpperCase v)
      else if normalizedKey = ''sex'' then (if startsWith (toLowerCase v) ''m'' then ''M'' else ''F'')
      else if normalizedKey = ''addressZip'' then take 5 (filter isDigit v)
      else v)"

text \<open>One round of the \<open>forEach\<close> over the keys; \<open>normalized\<close> maps field names to values.\<close>

definition normalizeField :: "(string \<rightharpoonup> string) \<Rightarrow> string \<times> json \<Rightarrow> (string \<rightharpoonup> string)" where
  "normalizeField normalized kv =
     (case fieldMappings (replace_spaces (toLowerCase (fst kv))) of
        None \<Rightarrow> normalized
      | Some normalizedKey \<Rightarrow>
          if truthy (snd kv)
          then normalized(normalizedKey \<mapsto> cleanValue normalizedKey (trim (toString (snd kv))))
          else normalized)"

definition normalizeExtractedData :: "json \<Rightarrow> ApiError + (string \<rightharpoonup> string)" where
  "normalizeExtractedData data =
     (case entries data of
        None \<Rightarrow> Inl (plainError ''TypeError'' ''Cannot convert undefined or null to object'')
      | Some kvs \<Rightarrow> Inr (foldl normalizeField Map.empty kvs))"

subsection \<open>Media type and the reply\<close>

definition getMediaType :: "string \<Rightarrow> string option" where
  "getMediaType imagePath =
     (let ext = split_pop (CHR ''.'') (toLowerCase imagePath)
      in if ext = ''jpg'' \<or> ext = ''jpeg'' then Some ''image/jpeg''
         else if ext = ''png'' then Some ''image/png''
         else if ext = ''webp'' then Some ''image/webp''
         else None)"

text \<open>
  \<open>text.match(/\{[\s\S]*\}/)\<close>: the match starts at the first opening brace and, the
  star being greedy over every character, ends at the last closing brace after it.
\<close>

definition match_braces :: "string \<Rightarrow> string option" where
  "match_braces text =
     (let from_open = dropWhile (\<lambda>c. c \<noteq> CHR ''{'') text
      in if from_open = [] then None
         else (let upto_close = rev (dropWhile (\<lambda>c. c \<noteq> CHR ''}'') (rev (tl from_open)))
               in if upto_close = [] then None else Some (CHR ''{'' # upto_close)))"

text \<open>A block of the model's reply: text, or a block of another type.\<close>

datatype content_block = TextBlock string | OtherBlock

text \<open>\<open>fs.readFileSync\<close> on a path that does not exist.\<close>

definition enoent :: "string \<Rightarrow> ApiError" where
  "enoent p = plainError ''Error''
     (''ENOENT: no such file or directory, open '' @ [CHR 0x27] @ p @ [CHR 0x27])"

text \<open>
  The \<open>try\<close> block of \<open>extractTextFromImage\<close>. The runtime's \<open>JSON.parse\<close> is the
  parameter \<open>JSON_parse\<close> (\<open>None\<close> when it throws); what the hosted model answers, a
  reply or a thrown error, is the parameter \<open>api\<close>; \<open>files\<close> are the paths on disk.
\<close>

definition extractTextFromImage_try ::
    "(string \<Rightarrow> json option) \<Rightarrow> ApiError + content_block list \<Rightarrow> string set \<Rightarrow> string
      \<Rightarrow> ApiError + (string \<rightharpoonup> string)" where
  "extractTextFromImage_try JSON_parse api files imagePath =
     (if imagePath \<notin> files then Inl (enoent imagePath)
      else case getMediaType imagePath of
        None \<Rightarrow> Inl (createError ''Unsupported file format for OCR'' 400)
      | Some mediaType \<Rightarrow>
         (case api of
            Inl e \<Rightarrow> Inl e
          | Inr [] \<Rightarrow> Inl (plainError ''TypeError'' ''Cannot read properties of undefined'')
          | Inr (OtherBlock # _) \<Rightarrow> Inl (createError ''Invalid response format from OCR service'' 500)
          | Inr (TextBlock text # _) \<Rightarrow>
             (case match_braces text of
                None \<Rightarrow> Inl (createError ''Could not parse OCR response'' 500)
              | Some jsonMatch \<Rightarrow>
                 (case JSON_parse jsonMatch of
                    None \<Rightarrow> Inl (createError ''Failed to parse OCR JSON response'' 500)
                  | Some extractedData \<Rightarrow> normalizeExtractedData extractedData))))"

text \<open>The \<open>catch\<close> block: upstream HTTP statuses become domain errors, the rest is rethrown.\<close>

definition extractTextFromImage_catch :: "ApiError \<Rightarrow> ApiError" where
  "extractTextFromImage_catch error =
     (if status error = StatusNum 401 then createError ''Invalid Anthropic API key'' 500
      else if status error = StatusNum 429
      then createError ''OCR service rate limit exceeded. Please try again later.'' 503
      else if status error = StatusNum 500
      then createError ''OCR service temporarily unavailable'' 503
      else error)"

definition extractTextFromImage ::
    "(string \<Rightarrow> json option) \<Rightarrow> ApiError + content_block list \<Rightarrow> string set \<Rightarrow> string
      \<Rightarrow> ApiError + (string \<rightharpoonup> string)" where
  "extractTextFromImage JSON_parse api files imagePath =
     (case extractTextFromImage_try JSON_parse api files imagePath of
        Inl error \<Rightarrow> Inl (extractTextFromImage_catch error)
      | Inr normalized \<Rightarrow> Inr normalized)"

section \<open>The upload endpoint\<close>

subsection \<open>Paths\<close>

text \<open>
  \<open>path.extname\<close>, \<open>path.parse\<close> and \<open>path.join\<close> on POSIX paths that are already
  normalised (no \<open>.\<close> or \<open>..\<close> segment, no doubled or trailing slash).
\<close>

definition basename :: "string \<Rightarrow> string" where
  "basename p = split_pop (CHR ''/'') p"

definition extname :: "string \<Rightarrow> string" where
  "extname p =
     (let base = basename p; e = split_pop (CHR ''.'') base
      in if CHR ''.'' \<notin> set base \<or> length e + 1 = length base \<or> base = ''..'' then []
         else CHR ''.'' # e)"

definition parse_dir :: "string \<Rightarrow> string" where
  "parse_dir p =
     (let d = rev (dropWhile (\<lambda>c. c \<noteq> CHR ''/'') (rev p))
      in if d = ''/'' then d else butlast d)"

definition parse_name :: "string \<Rightarrow> string" where
  "parse_name p = (let base = basename p in take (length base - length (extname p)) base)"

definition path_join :: "string \<Rightarrow> string \<Rightarrow> string" where
  "path_join dir file =
     (if dir = [] then file
      else if last dir = CHR ''/'' then dir @ file
      else dir @ ''/'' @ file)"

subsection \<open>The upload middleware\<close>

text \<open>The file part of the multipart request, and \<open>req.file\<close> once it is stored.\<close>

record file_part =
  originalname :: string
  mimetype :: string
  size_f :: nat

record upload_file = file_part +
  path :: string

definition allowedTypes :: "string list" where
  "allowedTypes = [''image/jpeg'', ''image/jpg'', ''image/png'', ''application/pdf'', ''image/heic'']"

definition fileFilter :: "file_part \<Rightarrow> ApiError + bool" where
  "fileFilter file =
     (if mimetype file \<in> set allowedTypes then Inr True
      else Inl (plainError ''Error'' ''Invalid file type. Allowed types: JPG, PNG, PDF, HEIC''))"

text \<open>
  The storage's \<open>filename\<close>: \<open>now\<close> is \<open>Date.now()\<close> and \<open>rnd\<close> the rounded random
  number of the unique suffix.
\<close>

definition filename :: "nat \<Rightarrow> nat \<Rightarrow> file_part \<Rightarrow> string" where
  "filename now rnd file =
     (let uniqueSuffix = digits_of now @ ''-'' @ digits_of rnd;
          ext = extname (originalname file)
      in ''id-'' @ uniqueSuffix @ ext)"

text \<open>
  \<open>upload.single('idImage')\<close>: no file part leaves \<open>req.file\<close> undefined; a file the
  filter accepts is written under the uploads directory. The original name is a bare file
  name (the multipart parser drops any directory). The limit on the file size is left out.
\<close>

definition upload_single ::
    "string \<Rightarrow> nat \<Rightarrow> nat \<Rightarrow> string set \<Rightarrow> file_part option
      \<Rightarrow> ApiError + (string set \<times> upload_file option)" where
  "upload_single uploadsDir now rnd files part =
     (case part of
        None \<Rightarrow> Inr (files, None)
      | Some file \<Rightarrow>
         (case fileFilter file of
            Inl e \<Rightarrow> Inl e
          | Inr _ \<Rightarrow>
             (let p = path_join uploadsDir (filename now rnd file)
              in Inr (insert p files,
                      Some \<lparr>originalname = originalname file, mimetype = mimetype file,
                            size_f = size_f file, path = p\<rparr>))))"

subsection \<open>HEIC conversion\<close>

text \<open>
  \<open>convertHeicToJpeg\<close>. The external converter is the parameter \<open>conv\<close>: \<open>None\<close> when it
  returns the JPEG bytes, \<open>Some msg\<close> when it throws an error with that message. Writing a
  file and unlinking an existing one succeed.
\<close>

definition convertHeicToJpeg ::
    "string option \<Rightarrow> string set \<Rightarrow> string \<Rightarrow> string set \<times> (ApiError + string)" where
  "convertHeicToJpeg conv files heicPath =
     (if heicPath \<notin> files
      then (files, Inl (plainError ''Error''
                         (''Failed to convert HEIC file: '' @ message (enoent heicPath))))
      else case conv of
        Some msg \<Rightarrow> (files, Inl (plainError ''Error'' (''Failed to convert HEIC file: '' @ msg)))
      | None \<Rightarrow>
         (let jpegPath = path_join (parse_dir heicPath) (parse_name heicPath @ ''.jpg'')
          in (insert jpegPath files - {heicPath}, Inr jpegPath)))"

definition convertIfHeic ::
    "string option \<Rightarrow> string set \<Rightarrow> string \<Rightarrow> string \<Rightarrow> string set \<times> (ApiError + string)" where
  "convertIfHeic conv files filePath mimeType =
     (if mimeType = ''image/heic'' then convertHeicToJpeg conv files filePath
      else (files, Inr filePath))"

subsection \<open>The upload controller\<close>

record upload_data =
  extractedData :: "string \<rightharpoonup> string"
  fileName :: string
  fileSize :: nat
  mimeType :: string

text \<open>The cleanup of the \<open>catch\<close> block, which then rethrows.\<close>

definition cleanup_on_error :: "string set \<Rightarrow> upload_file \<Rightarrow> string set" where
  "cleanup_on_error files file =
     (if path file \<noteq> [] \<and> path file \<in> files then files - {path file} else files)"

text \<open>
  \<open>uploadAndExtract\<close>: the files on disk afterwards, and the thrown error or the data of
  the 200 response.
\<close>

definition uploadAndExtract ::
    "(string \<Rightarrow> json option) \<Rightarrow> ApiError + content_block list \<Rightarrow> string option
      \<Rightarrow> string set \<Rightarrow> upload_file option \<Rightarrow> string set \<times> (ApiError + upload_data)" where
  "uploadAndExtract JSON_parse api conv files req_file =
     (case req_file of
        None \<Rightarrow> (files, Inl (createError ''No file uploaded'' 400))
      | Some file \<Rightarrow>
         (let originalMimeType = mimetype file;
              (files1, converted) =
                 (if originalMimeType = ''image/heic''
                  then convertIfHeic conv files (path file) originalMimeType
                  else (files, Inr (path file)))
          in case converted of
               Inl error \<Rightarrow> (cleanup_on_error files1 file, Inl error)
             | Inr imagePath \<Rightarrow>
                (case extractTextFromImage JSON_parse api files1 imagePath of
                   Inl error \<Rightarrow> (cleanup_on_error files1 file, Inl error)
                 | Inr extracted \<Rightarrow>
                    (files1 - {imagePath},
                     Inr \<lparr>extractedData = extracted, fileName = originalname file,
                          fileSize = size_f file, mimeType = originalMimeType\<rparr>))))"

text \<open>
  \<open>POST /api/id/upload\<close>: the middleware, the controller, and the error middleware for
  whatever either throws.
\<close>

definition upload_route ::
    "(string \<Rightarrow> json option) \<Rightarrow> ApiError + content_block list \<Rightarrow> string option
      \<Rightarrow> string \<Rightarrow> nat \<Rightarrow> nat \<Rightarrow> string set \<Rightarrow> file_part option
      \<Rightarrow> string set \<times> (error_response + upload_data)" where
  "upload_route JSON_parse api conv uploadsDir now rnd files part =
     (case upload_single uploadsDir now rnd files part of
        Inl e \<Rightarrow> (files, Inl (errorHandler e))
      | Inr (files1, req_file) \<Rightarrow>
         (case uploadAndExtract JSON_parse api conv files1 req_file of
            (files2, Inl e) \<Rightarrow> (files2, Inl (errorHandler e))
          | (files2, Inr d) \<Rightarrow> (files2, Inr d)))"

text \<open>
  What the client of the upload endpoint reads after an upstream failure with status 401,
  429 or 500: the message the error middleware sends for the domain error of the
  \<open>catch\<close> block.
\<close>

definition upstream_message :: "ApiError \<Rightarrow> string" where
  "upstream_message e =
     (if status e = StatusNum 401 then ''OCR service temporarily unavailable. Please try again later.''
      else if status e = StatusNum 429 then ''OCR service rate limit exceeded. Please try again later.''
      else ''OCR service temporarily unavailable'')"

section \<open>The data model layer\<close>

subsection \<open>The record\<close>

text \<open>
  The identity fields (the interface \<open>ExtractedIDData\<close>; \<open>id_f\<close> is its field \<open>id\<close>),
  the request body of the save endpoint, which adds the source file name, and the stored
  document \<open>IIDData\<close> (\<open>oid\<close> is its \<open>_id\<close>, a 24-digit hexadecimal ObjectId in lower case;
  the times are milliseconds). A string field that is absent is \<open>None\<close>. The
  confidence is absent (\<open>Missing\<close>), \<open>null\<close> or a number: the request schema takes no
  \<open>null\<close>, and the document schema's default puts \<open>null\<close> where the body has no
  confidence. \<open>modified\<close> holds the paths for which \<open>isModified\<close> is true. The \<open>createdAt\<close> and \<open>updatedAt\<close> stamps that the schema option
  \<open>timestamps\<close> adds are not read by any handler and are left out.
\<close>

datatype number_field = Missing | Null | Number real

record ExtractedIDData =
  id_f :: "string option"
  lastName :: "string option"
  firstName :: "string option"
  middleInitial :: "string option"
  addressStreet :: "string option"
  addressCity :: "string option"
  addressState :: "string option"
  addressZip :: "string option"
  sex :: "string option"
  dob :: "string option"
  confidence :: number_field

record id_body = ExtractedIDData +
  sourceFileName :: "string option"

record IIDData = id_body +
  oid :: string
  extractedAt :: nat
  lastModified :: nat
  isManuallyEdited :: bool
  modified :: "string set"

subsection \<open>The request schema of the save endpoint\<close>

text \<open>
  \<open>idDataSchema.safeParse\<close> on a body whose fields, where present, have the JSON type
  the schema names (a value of another type is rejected too, and is outside this model).
  The result is the list of issues, each a path and a message; the messages the source
  does not give are the schema library's defaults.
\<close>

definition max_issue :: "string \<Rightarrow> nat \<Rightarrow> string option \<Rightarrow> (string \<times> string) list" where
  "max_issue p n v =
     (case v of
        None \<Rightarrow> []
      | Some s \<Rightarrow>
          if length s > n
          then [(p, ''String must contain at most '' @ digits_of n @ '' character(s)'')]
          else [])"

definition name_issue :: "string \<Rightarrow> string \<Rightarrow> string option \<Rightarrow> (string \<times> string) list" where
  "name_issue p required_msg v =
     (case v of
        None \<Rightarrow> [(p, ''Required'')]
      | Some s \<Rightarrow>
          if length s < 1 then [(p, required_msg)]
          else max_issue p 100 v)"

definition sex_enum :: "string list" where
  "sex_enum = [''M'', ''F'', ''Male'', ''Female'']"

definition sex_issue :: "string option \<Rightarrow> (string \<times> string) list" where
  "sex_issue v =
     (case v of
        None \<Rightarrow> []
      | Some s \<Rightarrow>
          if s \<in> set sex_enum then []
          else [(''sex'', ''Invalid enum value. Expected 'M' | 'F' | 'Male' | 'Female', received ''
                          @ [CHR 0x27] @ s @ [CHR 0x27])])"

definition confidence_issue :: "number_field \<Rightarrow> (string \<times> string) list" where
  "confidence_issue v =
     (case v of
        Missing \<Rightarrow> []
      | Null \<Rightarrow> [(''confidence'', ''Expected number, received null'')]
      | Number c \<Rightarrow>
          if c < 0 then [(''confidence'', ''Number must be greater than or equal to 0'')]
          else if c > 1 then [(''confidence'', ''Number must be less than or equal to 1'')]
          else [])"

definition idDataSchema_safeParse :: "id_body \<Rightarrow> (string \<times> string) list" where
  "idDataSchema_safeParse body =
     name_issue ''lastName'' ''Last name is required'' (lastName body)
     @ name_issue ''firstName'' ''First name is required'' (firstName body)
     @ max_issue ''middleInitial'' 1 (middleInitial body)
     @ max_issue ''addressStreet'' 200 (addressStreet body)
     @ max_issue ''addressCity'' 100 (addressCity body)
     @ max_issue ''addressState'' 50 (addressState body)
     @ max_issue ''addressZip'' 20 (addressZip body)
     @ sex_issue (sex body)
     @ confidence_issue (confidence body)
     @ max_issue ''sourceFileName'' 255 (sourceFileName body)"

subsection \<open>The document schema\<close>

text \<open>
  \<open>new IDData({...data, extractedAt, lastModified, isManuallyEdited: false})\<close>: the
  setters of the schema run on the fields given (\<open>trim\<close> on every string, \<open>uppercase\<close>
  on the middle initial and the sex), and every path the constructor is given counts as
  modified on the new document.
\<close>

definition present :: "string \<Rightarrow> 'a option \<Rightarrow> string set" where
  "present p v = (case v of None \<Rightarrow> {} | Some _ \<Rightarrow> {p})"

definition new_IDData :: "string \<Rightarrow> nat \<Rightarrow> id_body \<Rightarrow> IIDData" where
  "new_IDData new_id now data =
     \<lparr>id_f = map_option trim (id_f data),
      lastName = map_option trim (lastName data),
      firstName = map_option trim (firstName data),
      middleInitial = map_option (\<lambda>s. toUpperCase (trim s)) (middleInitial data),
      addressStreet = map_option trim (addressStreet data),
      addressCity = map_option trim (addressCity data),
      addressState = map_option trim (addressState data),
      addressZip = map_option trim (addressZip data),
      sex = map_option (\<lambda>s. toUpperCase (trim s)) (sex data),
      dob = map_option trim (dob data),
      confidence = (case confidence data of Missing \<Rightarrow> Null | given \<Rightarrow> given),
      sourceFileName = map_option trim (sourceFileName data),
      oid = new_id,
      extractedAt = now,
      lastModified = now,
      isManuallyEdited = False,
      modified =
        present ''id'' (id_f data) \<union> present ''lastName'' (lastName data)
        \<union> present ''firstName'' (firstName data) \<union> present ''middleInitial'' (middleInitial data)
        \<union> present ''addressStreet'' (addressStreet data) \<union> present ''addressCity'' (addressCity data)
        \<union> present ''addressState'' (addressState data) \<union> present ''addressZip'' (addressZip data)
        \<union> present ''sex'' (sex data) \<union> present ''dob'' (dob data)
        \<union> (if confidence data = Missing then {} else {''confidence''})
        \<union> present ''sourceFileName'' (sourceFileName data)
        \<union> {''extractedAt'', ''lastModified'', ''isManuallyEdited''}\<rparr>"

text \<open>
  A string against a shape: \<open>d\<close> in the shape stands for a digit (\<open>\d\<close>), \<open>A\<close> for a
  letter of \<open>[A-Z]\<close>, any other character for itself; the whole string must fit, as with a
  regular expression anchored by \<open>^\<close> and \<open>$\<close>.
\<close>

fun has_shape :: "string \<Rightarrow> string \<Rightarrow> bool" where
  "has_shape [] [] = True"
| "has_shape (p # ps) (c # cs) =
     ((if p = CHR ''d'' then isDigit c else if p = CHR ''A'' then isUpperLetter c else c = p)
      \<and> has_shape ps cs)"
| "has_shape _ _ = False"

text \<open>The validators of the fields, each giving the messages of its failures.\<close>

definition maxlength :: "string \<Rightarrow> nat \<Rightarrow> string option \<Rightarrow> string list" where
  "maxlength p n v =
     (case v of
        None \<Rightarrow> []
      | Some s \<Rightarrow>
          if length s > n
          then [''Path `'' @ p @ ''` (`'' @ s @ ''`) is longer than the maximum allowed length (''
                 @ digits_of n @ '').'']
          else [])"

definition required :: "string \<Rightarrow> string option \<Rightarrow> string list" where
  "required msg v = (if v = None \<or> v = Some [] then [msg] else [])"

definition validator :: "(string \<Rightarrow> bool) \<Rightarrow> string \<Rightarrow> string option \<Rightarrow> string list" where
  "validator ok msg v = (case v of None \<Rightarrow> [] | Some s \<Rightarrow> if ok s then [] else [msg])"

definition middleInitial_ok :: "string \<Rightarrow> bool" where
  "middleInitial_ok v = (v = [] \<or> has_shape ''A'' v)"

definition addressZip_ok :: "string \<Rightarrow> bool" where
  "addressZip_ok v = (v = [] \<or> has_shape ''ddddd'' v \<or> has_shape ''ddddd-dddd'' v)"

definition dob_ok :: "string \<Rightarrow> bool" where
  "dob_ok v = (v = [] \<or> has_shape ''dddd-dd-dd'' v \<or> has_shape ''dd/dd/dddd'' v)"

definition enum_validator :: "string option \<Rightarrow> string list" where
  "enum_validator v =
     (case v of
        None \<Rightarrow> []
      | Some s \<Rightarrow>
          if s \<in> set sex_enum then []
          else [''`'' @ s @ ''` is not a valid enum value for path `sex`.''])"

text \<open>
  The \<open>min\<close> and \<open>max\<close> of the confidence (the value itself, which the library's message
  quotes, is left out of the message).
\<close>

definition range_validator :: "number_field \<Rightarrow> string list" where
  "range_validator v =
     (case v of
        Missing \<Rightarrow> []
      | Null \<Rightarrow> []
      | Number c \<Rightarrow>
          if c < 0 then [''Path `confidence` is less than minimum allowed value (0).'']
          else if c > 1 then [''Path `confidence` is more than maximum allowed value (1).'']
          else [])"

definition validate :: "IIDData \<Rightarrow> string list" where
  "validate doc =
     maxlength ''id'' 50 (id_f doc)
     @ required ''Last name is required'' (lastName doc)
     @ maxlength ''lastName'' 100 (lastName doc)
     @ required ''First name is required'' (firstName doc)
     @ maxlength ''firstName'' 100 (firstName doc)
     @ maxlength ''middleInitial'' 1 (middleInitial doc)
     @ validator middleInitial_ok ''Middle initial must be a single letter'' (middleInitial doc)
     @ maxlength ''addressStreet'' 200 (addressStreet doc)
     @ maxlength ''addressCity'' 100 (addressCity doc)
     @ maxlength ''addressState'' 50 (addressState doc)
     @ maxlength ''addressZip'' 20 (addressZip doc)
     @ validator addressZip_ok ''Invalid ZIP code format'' (addressZip doc)
     @ enum_validator (sex doc)
     @ validator dob_ok ''Invalid date format. Use YYYY-MM-DD or MM/DD/YYYY'' (dob doc)
     @ range_validator (confidence doc)
     @ maxlength ''sourceFileName'' 255 (sourceFileName doc)"

text \<open>The \<open>pre('save')\<close> hook; \<open>now\<close> is its \<open>new Date()\<close>.\<close>

definition isModified :: "IIDData \<Rightarrow> string \<Rightarrow> bool" where
  "isModified doc p = (p \<in> modified doc)"

definition pre_save :: "nat \<Rightarrow> IIDData \<Rightarrow> IIDData" where
  "pre_save now doc =
     (let this = doc\<lparr>lastModified := now\<rparr>
      in if isModified this ''lastName'' \<or> isModified this ''firstName''
            \<or> isModified this ''id'' \<or> isModified this ''addressStreet''
         then this\<lparr>isManuallyEdited := True\<rparr>
         else this)"

text \<open>
  \<open>doc.save()\<close> of a new document into the collection \<open>db\<close>: validation, the hook, the
  insert (which the database refuses when the \<open>_id\<close> is taken, error code 11000); the saved
  document has no modified path left.
\<close>

datatype save_error = ValidationError "string list" | DuplicateKey

definition save :: "nat \<Rightarrow> IIDData list \<Rightarrow> IIDData \<Rightarrow> save_error + IIDData list \<times> IIDData" where
  "save now db doc =
     (if validate doc \<noteq> [] then Inl (ValidationError (validate doc))
      else (let hooked = pre_save now doc
            in if oid hooked \<in> oid ` set db then Inl DuplicateKey
               else (let saved = hooked\<lparr>modified := {}\<rparr> in Inr (db @ [saved], saved))))"

text \<open>\<open>IDData.findById(id)\<close>: the identifier is cast to an ObjectId, whatever its letter case.\<close>

definition findById :: "IIDData list \<Rightarrow> string \<Rightarrow> IIDData option" where
  "findById db i = find (\<lambda>doc. oid doc = toLowerCase i) db"

text \<open>
  The query of \<open>findBySearchTerm\<close> uses the search term as a regular expression, with the
  option \<open>i\<close>. This model covers the terms made of ordinary characters, each matching
  itself in either letter case, and of dots, each matching any character but a line feed; a
  term with another metacharacter is outside the model (\<open>None\<close>).
\<close>

datatype atom = Lit char | AnyChar

definition metachars :: string where
  "metachars = [CHR 0x5C] @ ''^$|?*+()[]{}''"

definition parse_regex :: "string \<Rightarrow> atom list option" where
  "parse_regex term =
     (if \<exists>c \<in> set term. c \<in> set metachars then None
      else Some (map (\<lambda>c. if c = CHR ''.'' then AnyChar else Lit c) term))"

fun atom_matches :: "atom \<Rightarrow> char \<Rightarrow> bool" where
  "atom_matches (Lit p) c = (toLowerChar p = toLowerChar c)"
| "atom_matches AnyChar c = (c \<noteq> CHR 0x0A)"

fun match_here :: "atom list \<Rightarrow> string \<Rightarrow> bool" where
  "match_here [] s = True"
| "match_here (a # as) [] = False"
| "match_here (a # as) (c # cs) = (atom_matches a c \<and> match_here as cs)"

fun regex_search :: "atom list \<Rightarrow> string \<Rightarrow> bool" where
  "regex_search as [] = match_here as []"
| "regex_search as (c # cs) = (match_here as (c # cs) \<or> regex_search as cs)"

text \<open>\<open>{field: {$regex: ..., $options: 'i'}}\<close>: a field that is absent does not match.\<close>

definition field_matches :: "atom list \<Rightarrow> string option \<Rightarrow> bool" where
  "field_matches as v = (case v of None \<Rightarrow> False | Some s \<Rightarrow> regex_search as s)"

text \<open>
  \<open>.sort({extractedAt: -1})\<close>, latest first; the database leaves the order of documents
  with equal times open, this model keeps them in the order of the collection.
\<close>

definition sort_extractedAt_desc :: "IIDData list \<Rightarrow> IIDData list" where
  "sort_extractedAt_desc docs = sort_key (\<lambda>doc. - int (extractedAt doc)) docs"

definition findBySearchTerm :: "IIDData list \<Rightarrow> string \<Rightarrow> IIDData list option" where
  "findBySearchTerm db searchTerm =
     (case parse_regex searchTerm of
        None \<Rightarrow> None
      | Some as \<Rightarrow>
          Some (sort_extractedAt_desc
                  (filter (\<lambda>doc. field_matches as (id_f doc) \<or> field_matches as (lastName doc)
                                  \<or> field_matches as (firstName doc)) db)))"

section \<open>The save and query controller\<close>

text \<open>The \<open>data\<close> object of a response: the document's id, its fields, its metadata.\<close>

record metadata =
  meta_sourceFileName :: "string option"
  meta_extractedAt :: nat
  meta_lastModified :: nat
  meta_isManuallyEdited :: bool

record id_response =
  data_id :: string
  data_extractedData :: ExtractedIDData
  data_metadata :: metadata

definition response_of :: "IIDData \<Rightarrow> id_response" where
  "response_of item =
     \<lparr>data_id = oid item,
      data_extractedData =
        \<lparr>id_f = id_f item,
         lastName = lastName item,
         firstName = firstName item,
         middleInitial = middleInitial item,
         addressStreet = addressStreet item,
         addressCity = addressCity item,
         addressState = addressState item,
         addressZip = addressZip item,
         sex = sex item,
         dob = dob item,
         confidence = confidence item\<rparr>,
      data_metadata =
        \<lparr>meta_sourceFileName = sourceFileName item,
         meta_extractedAt = extractedAt item,
         meta_lastModified = lastModified item,
         meta_isManuallyEdited = isManuallyEdited item\<rparr>\<rparr>"

text \<open>
  \<open>saveData\<close>. \<open>new_id\<close> is the ObjectId the new document gets, \<open>now\<close> the time of the
  controller's \<open>new Date()\<close>, \<open>save_time\<close> that of the hook's. The result is the collection
  afterwards and the thrown error or the data of the 201 response.
\<close>

definition saveData ::
    "string \<Rightarrow> nat \<Rightarrow> nat \<Rightarrow> IIDData list \<Rightarrow> id_body \<Rightarrow> IIDData list \<times> (ApiError + id_response)" where
  "saveData new_id now save_time db body =
     (let issues = idDataSchema_safeParse body
      in if issues \<noteq> []
         then (db, Inl (createError
                 (''Validation Error: '' @ join '', '' (map (\<lambda>(p, m). p @ '': '' @ m) issues)) 400))
         else (case save save_time db (new_IDData new_id now body) of
                 Inl (ValidationError mongoErrors) \<Rightarrow>
                   (db, Inl (createError (''Database validation error: '' @ join '', '' mongoErrors) 400))
               | Inl DuplicateKey \<Rightarrow> (db, Inl (createError ''Duplicate entry found'' 409))
               | Inr (db', savedData) \<Rightarrow> (db', Inr (response_of savedData))))"

text \<open>\<open>getDataById\<close>: the format check \<open>/^[0-9a-fA-F]{24}$/\<close>, then the lookup.\<close>

definition getDataById :: "IIDData list \<Rightarrow> string \<Rightarrow> ApiError + id_response" where
  "getDataById db i =
     (if i = [] \<or> \<not> (length i = 24 \<and> (\<forall>c \<in> set i. isHexDigit c))
      then Inl (createError ''Invalid ID format'' 400)
      else (case findById db i of
              None \<Rightarrow> Inl (createError ''ID data not found'' 404)
            | Some data \<Rightarrow> Inr (response_of data)))"

text \<open>
  \<open>searchData\<close>; \<open>q\<close> is the query parameter, \<open>None\<close> when it is missing. The outer
  \<open>None\<close> of the result is a search term outside the model of the regular expressions.
\<close>

definition searchData :: "IIDData list \<Rightarrow> string option \<Rightarrow> (ApiError + id_response list) option" where
  "searchData db q =
     (case q of
        None \<Rightarrow> Some (Inl (createError ''Search term must be at least 2 characters long'' 400))
      | Some searchTerm \<Rightarrow>
          if searchTerm = [] \<or> length (trim searchTerm) < 2
          then Some (Inl (createError ''Search term must be at least 2 characters long'' 400))
          else map_option (\<lambda>data. Inr (map response_of data))
                 (findBySearchTerm db (trim searchTerm)))"

text \<open>
  The numbers of the source are doubles. An integer of magnitude up to \<open>2^53 - 1\<close> is a
  double, and sums and products of such integers are exact as long as the result stays in
  that range; there the source's numbers are the integers of this model. Beyond it the
  source rounds, and the model says so instead of computing.
\<close>

definition safe_integer :: "int \<Rightarrow> bool" where
  "safe_integer n = (\<bar>n\<bar> \<le> 9007199254740991)"

text \<open>
  \<open>parseInt(s)\<close> without a radix: leading white space, a sign, then hexadecimal digits
  after \<open>0x\<close> or decimal digits otherwise, as far as they go. The result is NaN, the
  integer written when that is a safe integer, or \<open>Inexact\<close> where the source has the
  nearest double.
\<close>

datatype parsed = NaN | Exact int | Inexact

definition digit_value :: "char \<Rightarrow> int" where
  "digit_value c =
     (case map_of (zip ''0123456789abcdefABCDEF''
                       [0, 1, 2, 3, 4, 5, 6, 7, 8, 9, 10, 11, 12, 13, 14, 15, 10, 11, 12, 13, 14, 15]) c of
        Some v \<Rightarrow> v
      | None \<Rightarrow> 0)"

definition digits_value :: "int \<Rightarrow> string \<Rightarrow> int option" where
  "digits_value radix ds =
     (if ds = [] then None else Some (foldl (\<lambda>acc c. acc * radix + digit_value c) 0 ds))"

definition parseInt :: "string \<Rightarrow> parsed" where
  "parseInt s =
     (let s1 = dropWhile isSpace s;
          negative = (s1 \<noteq> [] \<and> hd s1 = CHR ''-'');
          s2 = (if s1 \<noteq> [] \<and> (hd s1 = CHR ''-'' \<or> hd s1 = CHR ''+'') then tl s1 else s1);
          magnitude =
            (if take 2 s2 = ''0x'' \<or> take 2 s2 = ''0X''
             then digits_value 16 (takeWhile isHexDigit (drop 2 s2))
             else digits_value 10 (takeWhile isDigit s2))
      in case magnitude of
           None \<Rightarrow> NaN
         | Some m \<Rightarrow> if safe_integer m then Exact (if negative then - m else m) else Inexact)"

text \<open>
  \<open>parseInt(req.query.x as string) || d\<close>: NaN and zero give the default; \<open>None\<close> is a
  number beyond the safe integers.
\<close>

definition parseInt_or :: "string option \<Rightarrow> int \<Rightarrow> int option" where
  "parseInt_or q d =
     (case q of
        None \<Rightarrow> Some d
      | Some s \<Rightarrow>
          (case parseInt s of
             NaN \<Rightarrow> Some d
           | Exact n \<Rightarrow> Some (if n = 0 then d else n)
           | Inexact \<Rightarrow> None))"

record pagination =
  currentPage :: int
  totalPages :: int
  totalRecords :: nat
  hasMore :: bool

record list_response =
  list_data :: "id_response list"
  list_pagination :: pagination

text \<open>
  \<open>find().sort(...).skip(skip).limit(limit)\<close>: the database refuses a negative skip and
  reads a negative limit as its absolute value.
\<close>

definition find_page :: "IIDData list \<Rightarrow> int \<Rightarrow> int \<Rightarrow> ApiError + IIDData list" where
  "find_page db skip limit =
     (if skip < 0 then Inl (plainError ''MongoServerError'' ''Skip value must be non-negative'')
      else Inr (take (nat \<bar>limit\<bar>) (drop (nat skip) (sort_extractedAt_desc db))))"

text \<open>
  \<open>getAllData\<close>. The outer \<open>None\<close> of the result is a request or a collection for
  which a number of the handler (the page, the limit, the skip, the product
  \<open>page * limit\<close> or the count) is beyond the safe integers.
\<close>

definition getAllData ::
    "IIDData list \<Rightarrow> string option \<Rightarrow> string option \<Rightarrow> (ApiError + list_response) option" where
  "getAllData db page_q limit_q =
     (case (parseInt_or page_q 1, parseInt_or limit_q 10) of
        (Some page, Some limit) \<Rightarrow>
          (let skip = (page - 1) * limit;
               total = length db
           in if \<not> (safe_integer skip \<and> safe_integer (page * limit) \<and> safe_integer (int total))
              then None
              else Some
                (case find_page db skip limit of
                   Inl e \<Rightarrow> Inl e
                 | Inr data \<Rightarrow>
                     Inr \<lparr>list_data = map response_of data,
                          list_pagination =
                            \<lparr>currentPage = page,
                             totalPages = \<lceil>real total / real_of_int limit\<rceil>,
                             totalRecords = total,
                             hasMore = (page * limit < int total)\<rparr>\<rparr>))
      | _ \<Rightarrow> None)"

section \<open>Specification-side notions and example data\<close>

text \<open>
  The specification speaks of the first top-level \<open>{...}\<close> substring of the reply: from
  the first opening brace to the closing brace that balances it. \<open>close_at depth cs\<close>
  reads up to that brace, \<open>depth\<close> counting the braces opened since.
\<close>

fun close_at :: "nat \<Rightarrow> string \<Rightarrow> string option" where
  "close_at depth [] = None"
| "close_at depth (c # cs) =
     (if c = CHR ''{'' then map_option ((#) c) (close_at (Suc depth) cs)
      else if c = CHR ''}'' then
        (case depth of 0 \<Rightarrow> Some [c] | Suc d \<Rightarrow> map_option ((#) c) (close_at d cs))
      else map_option ((#) c) (close_at depth cs))"

definition spec_first_top_level_object :: "string \<Rightarrow> string option" where
  "spec_first_top_level_object text =
     (case dropWhile (\<lambda>c. c \<noteq> CHR ''{'') text of
        [] \<Rightarrow> None
      | c # cs \<Rightarrow> map_option ((#) c) (close_at 0 cs))"

text \<open>
  The words of the specification for the search: the query occurs in a field as a
  substring, letter case aside. An absent field contains nothing.
\<close>

definition spec_occurs_in :: "string \<Rightarrow> string option \<Rightarrow> bool" where
  "spec_occurs_in query v =
     (case v of None \<Rightarrow> False | Some s \<Rightarrow> includes_str (toLowerCase s) (toLowerCase query))"

text \<open>
  The page or the limit that a request asks for, the parameter being absent or a decimal
  numeral: the number written, and the default \<open>d\<close> when the parameter is absent or zero.
\<close>

definition spec_requested :: "nat option \<Rightarrow> int \<Rightarrow> int" where
  "spec_requested n d = (case n of None \<Rightarrow> d | Some k \<Rightarrow> if k = 0 then d else int k)"

text \<open>
  A request body used in the examples below (its last name ends in a space, its middle
  initial is in lower case), two ObjectIds, and the document the save endpoint stores for
  the body under the ObjectId \<open>i\<close>, at time 1000 with the hook running at time 1001.
\<close>

definition example_body :: id_body where
  "example_body =
     \<lparr>id_f = Some ''D1234567'', lastName = Some ''La Rue '', firstName = Some ''Ann'',
      middleInitial = Some ''q'', addressStreet = Some ''1 Main St'', addressCity = None,
      addressState = None, addressZip = Some ''12345'', sex = Some ''F'',
      dob = Some ''1990-01-31'', confidence = Number (9 / 10), sourceFileName = None\<rparr>"

definition example_id :: string where
  "example_id = ''64b7f0c2a1d3e4f5a6b7c8d9''"

definition example_id2 :: string where
  "example_id2 = ''64b7f0c2a1d3e4f5a6b7c8da''"

definition example_doc :: "string \<Rightarrow> IIDData" where
  "example_doc i =
     \<lparr>id_f = Some ''D1234567'', lastName = Some ''La Rue'', firstName = Some ''Ann'',
      middleInitial = Some ''Q'', addressStreet = Some ''1 Main St'', addressCity = None,
      addressState = None, addressZip = Some ''12345'', sex = Some ''F'',
      dob = Some ''1990-01-31'', confidence = Number (9 / 10), sourceFileName = None,
      oid = i, extractedAt = 1000, lastModified = 1001, isManuallyEdited = True,
      modified = {}\<rparr>"

section \<open>Properties\<close>

subsection \<open>Helper facts\<close>

lemmas js_char_defs = toLowerCase_def toLowerChar_def toUpperCase_def toUpperChar_def lowers_def uppers_def

lemma getMediaType_jpg: "getMediaType (pre @ ''.jpg'') = Some ''image/jpeg''"
  by (simp add: getMediaType_def split_pop_def toLowerCase_def toLowerChar_def lowers_def uppers_def)

lemma path_join_suffix: "\<exists>pre. path_join d (n @ s) = pre @ s"
  by (auto simp: path_join_def intro: exI[of _ "d @ n"] exI[of _ "d @ ''/'' @ n"])

lemma createError_name: "name (createError m c) = ''Error''"
  and createError_message: "message (createError m c) = m"
  and createError_statusCode: "statusCode (createError m c) = Some c"
  by (simp_all add: createError_def)

lemma errorHandler_401: "errorHandler (createError ''Invalid Anthropic API key'' 500) =
   \<lparr>res_status = 503, res_message = ''OCR service temporarily unavailable. Please try again later.''\<rparr>"
  by (simp add: errorHandler_def createError_name createError_message createError_statusCode startsWith_def Let_def)

lemma errorHandler_429: "errorHandler (createError ''OCR service rate limit exceeded. Please try again later.'' 503) =
   \<lparr>res_status = 503, res_message = ''OCR service rate limit exceeded. Please try again later.''\<rparr>"
  by (simp add: errorHandler_def createError_name createError_message createError_statusCode startsWith_def Let_def)

lemma errorHandler_500: "errorHandler (createError ''OCR service temporarily unavailable'' 503) =
   \<lparr>res_status = 503, res_message = ''OCR service temporarily unavailable''\<rparr>"
  by (simp add: errorHandler_def createError_name createError_message createError_statusCode startsWith_def Let_def)

lemma digits_of_42: "digits_of 42 = ''42''" by (simp add: digits_of.simps digit_char_def)
lemma digits_of_now: "digits_of 1700000000000 = ''1700000000000''" by (simp add: digits_of.simps digit_char_def)
lemma filename_card_png: "filename 1700000000000 42 \<lparr>originalname = ''card.png'', mimetype = ''image/png'', size_f = 2048\<rparr> = ''id-1700000000000-42.png''"
  by (simp add: filename_def extname_def basename_def split_pop_def digits_of_42 digits_of_now)
lemma getMediaType_card_png: "getMediaType (path_join ''/srv/uploads'' ''id-1700000000000-42.png'') = Some ''image/png''"
  by (simp add: path_join_def getMediaType_def split_pop_def toLowerCase_def toLowerChar_def lowers_def uppers_def)

subsection \<open>The error path of the upload endpoint (C3)\<close>

lemma extract_upstream:
  assumes "imagePath \<in> files" "getMediaType imagePath \<noteq> None"
  shows "extractTextFromImage JSON_parse (Inl e) files imagePath = Inl (extractTextFromImage_catch e)"
  using assms by (auto simp: extractTextFromImage_def extractTextFromImage_try_def)

lemma catch_upstream:
  assumes "status e = StatusNum 401 \<or> status e = StatusNum 429 \<or> status e = StatusNum 500"
  shows "errorHandler (extractTextFromImage_catch e) =
           \<lparr>res_status = 503, res_message = upstream_message e\<rparr>"
  using assms
  by (auto simp: extractTextFromImage_catch_def upstream_message_def
                 errorHandler_401 errorHandler_429 errorHandler_500)

text \<open>
  Claim C3. For every upstream OCR failure whose HTTP status is 401, 429 or 500, the error
  returned to the client of the upload endpoint carries HTTP status 503 with a domain error
  message. The upstream call is reached by every accepted file \<open>part\<close> whose stored path
  \<open>p\<close> has a recognised extension, or that is HEIC and was converted (\<open>conv = None\<close>) to a
  JPEG beside it. The 401 case gets its 503 from the error middleware, which rewrites every
  error whose message names the vendor.
\<close>

theorem upstream_failure_returns_503:
  assumes st: "status e = StatusNum 401 \<or> status e = StatusNum 429 \<or> status e = StatusNum 500"
    and accepted: "mimetype part \<in> set allowedTypes"
    and stored: "p = path_join uploadsDir (filename now rnd part)"
    and plain: "mimetype part \<noteq> ''image/heic'' \<Longrightarrow> getMediaType p \<noteq> None"
    and heic: "mimetype part = ''image/heic'' \<Longrightarrow>
                 conv = None \<and> path_join (parse_dir p) (parse_name p @ ''.jpg'') \<noteq> p"
  shows "snd (upload_route JSON_parse (Inl e) conv uploadsDir now rnd files (Some part)) =
           Inl \<lparr>res_status = 503, res_message = upstream_message e\<rparr>"
proof (cases "mimetype part = ''image/heic''")
  case False
  with plain have m: "getMediaType p \<noteq> None" by simp
  have x: "extractTextFromImage JSON_parse (Inl e) (insert p files) p = Inl (extractTextFromImage_catch e)"
    by (rule extract_upstream) (simp_all add: m)
  show ?thesis
    using False accepted x catch_upstream[OF st]
    by (simp add: upload_route_def upload_single_def fileFilter_def uploadAndExtract_def
                  stored[symmetric] Let_def)
next
  case True
  with heic have c: "conv = None" and ne: "path_join (parse_dir p) (parse_name p @ ''.jpg'') \<noteq> p"
    by simp_all
  let ?j = "path_join (parse_dir p) (parse_name p @ ''.jpg'')"
  obtain pre where pre: "?j = pre @ ''.jpg''" using path_join_suffix by blast
  have m: "getMediaType ?j \<noteq> None" by (simp add: pre getMediaType_jpg)
  have x: "extractTextFromImage JSON_parse (Inl e) (insert ?j (insert p files) - {p}) ?j
             = Inl (extractTextFromImage_catch e)"
    by (rule extract_upstream) (use ne m in auto)
  show ?thesis
    using True accepted x catch_upstream[OF st] c
    by (simp add: upload_route_def upload_single_def fileFilter_def uploadAndExtract_def
                  convertIfHeic_def convertHeicToJpeg_def stored[symmetric] Let_def)
qed

text \<open>
  Claim C3 at a PNG upload whose OCR call is answered with status 429.
\<close>

theorem upstream_failure_returns_503_witness:
  "snd (upload_route (\<lambda>s. None)
          (Inl \<lparr>name = ''RateLimitError'', message = ''429 rate_limit_error'', statusCode = None,
                status = StatusNum 429\<rparr>)
          None ''/srv/uploads'' 1700000000000 42 {}
          (Some \<lparr>originalname = ''card.png'', mimetype = ''image/png'', size_f = 2048\<rparr>)) =
     Inl \<lparr>res_status = 503, res_message = ''OCR service rate limit exceeded. Please try again later.''\<rparr>"
proof -
  let ?part = "\<lparr>originalname = ''card.png'', mimetype = ''image/png'', size_f = 2048\<rparr>"
  let ?p = "path_join ''/srv/uploads'' (filename 1700000000000 42 ?part)"
  have m: "getMediaType ?p \<noteq> None"
    by (simp add: filename_card_png getMediaType_card_png)
  show ?thesis
    using upstream_failure_returns_503[where e = "\<lparr>name = ''RateLimitError'', message = ''429 rate_limit_error'', statusCode = None,
                status = StatusNum 429\<rparr>" and part = ?part and p = ?p and uploadsDir = "''/srv/uploads''" and now = 1700000000000 and rnd = 42
          and conv = None and JSON_parse = "\<lambda>s. None" and files = "{}"] m
    by (simp add: allowedTypes_def upstream_message_def)
qed

subsection \<open>The reply of the model (C5)\<close>

text \<open>
  Claim C5 as stated fails: on a reply with a JSON object followed by more braces, the regular
  expression matches up to the last closing brace, not the first top-level \<open>{...}\<close>
  substring.
\<close>

theorem greedy_match_counterexample:
  \<open>match_braces ''{"surname":"Doe"} (fields in {braces} were unclear)''
      = Some ''{"surname":"Doe"} (fields in {braces}''
   \<and> spec_first_top_level_object ''{"surname":"Doe"} (fields in {braces} were unclear)''
      = Some ''{"surname":"Doe"}''
   \<and> match_braces ''{"surname":"Doe"} (fields in {braces} were unclear)''
      \<noteq> spec_first_top_level_object ''{"surname":"Doe"} (fields in {braces} were unclear)''\<close>
  by (simp add: match_braces_def spec_first_top_level_object_def)

lemma last_occurrence:
  "rev (dropWhile (\<lambda>c. c \<noteq> x) (rev s)) = u \<Longrightarrow>
     (u = [] \<and> x \<notin> set s) \<or> (\<exists>mid post. s = mid @ x # post \<and> x \<notin> set post \<and> u = mid @ [x])"
proof -
  assume u: "rev (dropWhile (\<lambda>c. c \<noteq> x) (rev s)) = u"
  let ?P = "\<lambda>c. c \<noteq> x"
  show ?thesis
  proof (cases "dropWhile ?P (rev s)")
    case Nil
    then have "\<forall>c\<in>set (rev s). c \<noteq> x" by (simp add: dropWhile_eq_Nil_conv)
    with Nil u show ?thesis by auto
  next
    case (Cons y ys)
    then have y: "y = x" using hd_dropWhile[of ?P "rev s"] by auto
    have "rev s = takeWhile ?P (rev s) @ x # ys"
      using takeWhile_dropWhile_id[of ?P "rev s"] Cons y by simp
    then have "s = rev ys @ x # rev (takeWhile ?P (rev s))"
      by (metis rev_append rev.simps(2) rev_rev_ident append_Cons append_Nil append_assoc)
    moreover have "x \<notin> set (rev (takeWhile ?P (rev s)))"
      using set_takeWhileD by fastforce
    moreover have "u = rev ys @ [x]" using u Cons y by simp
    ultimately show ?thesis by blast
  qed
qed

lemma match_braces_decomposed:
  assumes "CHR ''{'' \<notin> set pre" "CHR ''}'' \<notin> set post"
  shows "match_braces (pre @ ''{'' @ mid @ ''}'' @ post) = Some (''{'' @ mid @ ''}'')"
proof -
  have a: "dropWhile (\<lambda>c. c \<noteq> CHR ''{'') (pre @ ''{'' @ mid @ ''}'' @ post) = ''{'' @ mid @ ''}'' @ post"
    using assms(1) by (simp add: dropWhile_append)
  have b: "dropWhile (\<lambda>c. c \<noteq> CHR ''}'') (rev post @ CHR ''}'' # rev mid) = CHR ''}'' # rev mid"
    using assms(2) by (simp add: dropWhile_append)
  show ?thesis
    using a b by (simp add: match_braces_def Let_def)
qed

lemma match_braces_Some:
  assumes "match_braces text = Some m"
  shows "\<exists>pre mid post. text = pre @ ''{'' @ mid @ ''}'' @ post \<and> CHR ''{'' \<notin> set pre
            \<and> CHR ''}'' \<notin> set post \<and> m = ''{'' @ mid @ ''}''"
proof -
  let ?P = "\<lambda>c. c \<noteq> CHR ''{''"
  from assms have ne: "dropWhile ?P text \<noteq> []"
    by (auto simp: match_braces_def Let_def split: if_splits)
  then obtain rest where d: "dropWhile ?P text = CHR ''{'' # rest"
    using hd_dropWhile[of ?P "text"] by (cases "dropWhile ?P text") auto
  have t: "text = takeWhile ?P text @ CHR ''{'' # rest"
    using takeWhile_dropWhile_id[of ?P "text"] d by simp
  have pre: "CHR ''{'' \<notin> set (takeWhile ?P text)" using set_takeWhileD by fastforce
  from assms d have u: "rev (dropWhile (\<lambda>c. c \<noteq> CHR ''}'') (rev rest)) \<noteq> []"
     and m: "m = CHR ''{'' # rev (dropWhile (\<lambda>c. c \<noteq> CHR ''}'') (rev rest))"
    by (auto simp: match_braces_def Let_def split: if_splits)
  from last_occurrence[OF refl, of "CHR ''}''" rest] u
  obtain mid post where r: "rest = mid @ CHR ''}'' # post" "CHR ''}'' \<notin> set post"
      "rev (dropWhile (\<lambda>c. c \<noteq> CHR ''}'') (rev rest)) = mid @ ''}''"
    by auto
  show ?thesis
    apply (rule exI[of _ "takeWhile ?P text"], rule exI[of _ mid], rule exI[of _ post])
    using t pre r m by simp
qed

lemma catch_createError: "extractTextFromImage_catch (createError m c) = createError m c"
  by (simp add: extractTextFromImage_catch_def createError_def)

lemma catch_plainError: "extractTextFromImage_catch (plainError n m) = plainError n m"
  by (simp add: extractTextFromImage_catch_def plainError_def)

lemma normalize_through_catch:
  "(case normalizeExtractedData d of Inl error \<Rightarrow> Inl (extractTextFromImage_catch error)
      | Inr normalized \<Rightarrow> Inr normalized) = normalizeExtractedData d"
  by (simp add: normalizeExtractedData_def catch_plainError split: option.splits)

lemma extract_text_reply:
  assumes "imagePath \<in> files" "getMediaType imagePath \<noteq> None"
  shows "extractTextFromImage JSON_parse (Inr (TextBlock t # blocks)) files imagePath =
           (case match_braces t of
              None \<Rightarrow> Inl (createError ''Could not parse OCR response'' 500)
            | Some jsonMatch \<Rightarrow>
               (case JSON_parse jsonMatch of
                  None \<Rightarrow> Inl (createError ''Failed to parse OCR JSON response'' 500)
                | Some d \<Rightarrow> normalizeExtractedData d))"
  using assms
  by (auto simp: extractTextFromImage_def extractTextFromImage_try_def catch_createError
                 normalize_through_catch split: option.splits)

text \<open>
  Claim C5, amended. For every model reply that reaches the client, the first block must be a
  text block (500 otherwise); the client extracts from its text the substring from the first
  opening brace to the last closing brace after it, fails with a 500 error when there is no
  such substring, hands it to \<open>JSON.parse\<close>, fails with a 500 error when that throws, and
  otherwise normalises the parsed value.
\<close>

theorem reply_is_matched_greedily_then_parsed:
  assumes "imagePath \<in> files" and "getMediaType imagePath \<noteq> None"
  shows "(extractTextFromImage JSON_parse (Inr (OtherBlock # blocks)) files imagePath =
            Inl (createError ''Invalid response format from OCR service'' 500))
       \<and> ((\<nexists>pre mid post. t = pre @ ''{'' @ mid @ ''}'' @ post) \<longrightarrow>
            extractTextFromImage JSON_parse (Inr (TextBlock t # blocks)) files imagePath =
              Inl (createError ''Could not parse OCR response'' 500))
       \<and> (\<forall>pre mid post. t = pre @ ''{'' @ mid @ ''}'' @ post \<and> CHR ''{'' \<notin> set pre
              \<and> CHR ''}'' \<notin> set post \<longrightarrow>
            extractTextFromImage JSON_parse (Inr (TextBlock t # blocks)) files imagePath =
              (case JSON_parse (''{'' @ mid @ ''}'') of
                 None \<Rightarrow> Inl (createError ''Failed to parse OCR JSON response'' 500)
               | Some d \<Rightarrow> normalizeExtractedData d))"
proof (intro conjI impI allI)
  show "extractTextFromImage JSON_parse (Inr (OtherBlock # blocks)) files imagePath =
            Inl (createError ''Invalid response format from OCR service'' 500)"
    using assms
    by (auto simp: extractTextFromImage_def extractTextFromImage_try_def catch_createError)
next
  assume no: "\<nexists>pre mid post. t = pre @ ''{'' @ mid @ ''}'' @ post"
  have "match_braces t = None"
  proof (cases "match_braces t")
    case (Some m)
    from match_braces_Some[OF Some] no show ?thesis by blast
  qed simp
  then show "extractTextFromImage JSON_parse (Inr (TextBlock t # blocks)) files imagePath =
              Inl (createError ''Could not parse OCR response'' 500)"
    by (simp add: extract_text_reply[OF assms])
next
  fix pre mid post
  assume d: "t = pre @ ''{'' @ mid @ ''}'' @ post \<and> CHR ''{'' \<notin> set pre \<and> CHR ''}'' \<notin> set post"
  then have "match_braces t = Some (''{'' @ mid @ ''}'')"
    using match_braces_decomposed[of pre post mid] by simp
  then show "extractTextFromImage JSON_parse (Inr (TextBlock t # blocks)) files imagePath =
              (case JSON_parse (''{'' @ mid @ ''}'') of
                 None \<Rightarrow> Inl (createError ''Failed to parse OCR JSON response'' 500)
               | Some d \<Rightarrow> normalizeExtractedData d)"
    by (simp add: extract_text_reply[OF assms])
qed

text \<open>
  Claim C5, amended, at the reply \<open>Result: {} done\<close>.
\<close>

theorem reply_is_matched_greedily_then_parsed_witness:
  "extractTextFromImage (\<lambda>s. if s = ''{}'' then Some (JObj []) else None)
      (Inr [TextBlock ''Result: {} done'']) {''/srv/uploads/id-1-2.png''} ''/srv/uploads/id-1-2.png''
     = Inr Map.empty"
proof -
  have m: "getMediaType ''/srv/uploads/id-1-2.png'' \<noteq> None"
    by (simp add: getMediaType_def split_pop_def toLowerCase_def toLowerChar_def lowers_def uppers_def)
  have f: "''/srv/uploads/id-1-2.png'' \<in> {''/srv/uploads/id-1-2.png''}" by simp
  from reply_is_matched_greedily_then_parsed[OF f m, of "\<lambda>s. if s = ''{}'' then Some (JObj []) else None" "[]" "''Result: {} done''"]
  have "extractTextFromImage (\<lambda>s. if s = ''{}'' then Some (JObj []) else None)
      (Inr [TextBlock ''Result: {} done'']) {''/srv/uploads/id-1-2.png''} ''/srv/uploads/id-1-2.png''
     = (case (\<lambda>s. if s = ''{}'' then Some (JObj []) else None) (''{'' @ [] @ ''}'') of
                 None \<Rightarrow> Inl (createError ''Failed to parse OCR JSON response'' 500)
               | Some d \<Rightarrow> normalizeExtractedData d)"
    by (elim conjE allE[of _ "''Result: ''"] allE[of _ "[]"] allE[of _ "'' done''"]) simp
  then show ?thesis by (simp add: normalizeExtractedData_def)
qed

subsection \<open>Normalisation (C7)\<close>











subsection \<open>PDF uploads (C10)\<close>

lemma digit_char_in: "d < 10 \<Longrightarrow> digit_char d \<in> set ''0123456789''"
proof -
  assume "d < 10"
  then have "d \<in> {0,1,2,3,4,5,6,7,8,9}" by auto
  then show ?thesis by (auto simp: digit_char_def)
qed

lemma digits_of_last: "digits_of n \<noteq> [] \<and> last (digits_of n) \<in> set ''0123456789''"
proof (cases "n < 10")
  case True
  then show ?thesis using digit_char_in[of n] by (subst (1 2) digits_of.simps) simp
next
  case False
  then show ?thesis using digit_char_in[of "n mod 10"] by (subst (1 2) digits_of.simps) simp
qed

lemma toLowerChar_other: "c \<notin> set uppers \<Longrightarrow> toLowerChar c = c"
proof -
  assume "c \<notin> set uppers"
  moreover have "length uppers = length lowers" by (simp add: uppers_def lowers_def)
  ultimately have "map_of (zip uppers lowers) c = None" by (simp add: map_of_zip_is_None)
  then show ?thesis by (simp add: toLowerChar_def)
qed

lemma toLowerChar_digit:
  assumes "c \<in> set ''0123456789''"
  shows "toLowerChar c = c"
proof -
  have "set ''0123456789'' \<inter> set uppers = {}" by (simp add: uppers_def)
  with assms have "c \<notin> set uppers" by blast
  then show ?thesis by (rule toLowerChar_other)
qed

lemma toLowerChar_range: "toLowerChar c = c \<or> toLowerChar c \<in> set lowers"
proof (cases "map_of (zip uppers lowers) c")
  case None
  then show ?thesis by (simp add: toLowerChar_def)
next
  case (Some l)
  then have "l \<in> set lowers" by (meson map_of_SomeD set_zip_rightD)
  with Some show ?thesis by (simp add: toLowerChar_def)
qed

lemma toLowerChar_dot: "toLowerChar c = CHR ''.'' \<longleftrightarrow> c = CHR ''.''"
proof
  assume a: "toLowerChar c = CHR ''.''"
  have "CHR ''.'' \<notin> set lowers" by (simp add: lowers_def)
  with a toLowerChar_range[of c] show "c = CHR ''.''" by auto
next
  assume "c = CHR ''.''"
  then show "toLowerChar c = CHR ''.''" by (simp add: toLowerChar_def lowers_def uppers_def)
qed

lemma split_pop_last:
  assumes "s \<noteq> []" "last s \<noteq> sep"
  shows "split_pop sep s \<noteq> [] \<and> last (split_pop sep s) = last s"
proof -
  from assms(1) obtain xs x where s: "s = xs @ [x]" by (metis append_butlast_last_id)
  with assms(2) have "x \<noteq> sep" by simp
  then show ?thesis by (simp add: split_pop_def s)
qed

lemma split_pop_after_sep:
  assumes "sep \<notin> set e"
  shows "split_pop sep (pre @ sep # e) = e"
proof -
  have "takeWhile (\<lambda>c. c \<noteq> sep) (rev e @ sep # rev pre) = rev e"
    using assms by (auto simp add: takeWhile_tail takeWhile_eq_all_conv)
  then show ?thesis by (simp add: split_pop_def)
qed

lemma extname_shape: "extname p = [] \<or> (\<exists>e. extname p = CHR ''.'' # e \<and> CHR ''.'' \<notin> set e)"
proof -
  have "CHR ''.'' \<notin> set (split_pop (CHR ''.'') (basename p))"
    unfolding split_pop_def using set_takeWhileD by fastforce
  then show ?thesis by (auto simp: extname_def Let_def)
qed

lemma getMediaType_ends_with_digit:
  assumes "s \<noteq> []" "last s \<in> set ''0123456789''"
  shows "getMediaType (pre @ s) = None"
proof -
  let ?l = "toLowerCase (pre @ s)"
  have ne: "?l \<noteq> []" using assms(1) by (simp add: toLowerCase_def)
  have l: "last ?l = last s"
    using assms toLowerChar_digit[of "last s"] by (simp add: toLowerCase_def last_map)
  then have "last ?l \<noteq> CHR ''.''" using assms(2) by auto
  from split_pop_last[OF ne this] l
  have "split_pop (CHR ''.'') ?l \<noteq> []" and "last (split_pop (CHR ''.'') ?l) \<in> set ''0123456789''"
    using assms(2) by simp_all
  moreover have "\<And>x. x \<in> {''jpg'', ''jpeg'', ''png'', ''webp''} \<Longrightarrow> last x \<notin> set ''0123456789''"
    by (elim insertE emptyE) simp_all
  ultimately have "split_pop (CHR ''.'') ?l \<notin> {''jpg'', ''jpeg'', ''png'', ''webp''}"
    by blast
  then show ?thesis by (simp add: getMediaType_def Let_def)
qed

lemma getMediaType_None_iff:
  "getMediaType p = None \<longleftrightarrow>
     split_pop (CHR ''.'') (toLowerCase p) \<notin> {''jpg'', ''jpeg'', ''png'', ''webp''}"
  by (simp add: getMediaType_def Let_def)

lemma getMediaType_ext:
  assumes "CHR ''.'' \<notin> set e" "toLowerCase (CHR ''.'' # e) \<notin> {''.jpg'', ''.jpeg'', ''.png'', ''.webp''}"
  shows "getMediaType (pre @ CHR ''.'' # e) = None"
proof -
  define l where "l = map toLowerChar e"
  have dot: "toLowerChar (CHR ''.'') = CHR ''.''" by (simp add: toLowerChar_dot)
  have d: "CHR ''.'' \<notin> set l"
    unfolding l_def
  proof
    assume "CHR ''.'' \<in> set (map toLowerChar e)"
    then obtain x where x: "x \<in> set e" "toLowerChar x = CHR ''.''" by auto
    then have "x = CHR ''.''" by (simp add: toLowerChar_dot)
    with x(1) assms(1) show False by simp
  qed
  have "toLowerCase (pre @ CHR ''.'' # e) = map toLowerChar pre @ CHR ''.'' # l"
    unfolding l_def toLowerCase_def using dot by simp
  then have sp: "split_pop (CHR ''.'') (toLowerCase (pre @ CHR ''.'' # e)) = l"
    using split_pop_after_sep[OF d] by simp
  have "toLowerCase (CHR ''.'' # e) = CHR ''.'' # l"
    unfolding l_def toLowerCase_def using dot by simp
  with assms(2) have "l \<notin> {''jpg'', ''jpeg'', ''png'', ''webp''}"
    by auto
  then show ?thesis unfolding getMediaType_None_iff sp .
qed

lemma stored_path_unsupported:
  assumes "toLowerCase (extname (originalname part)) \<notin> {''.jpg'', ''.jpeg'', ''.png'', ''.webp''}"
  shows "getMediaType (path_join uploadsDir (filename now rnd part)) = None"
proof -
  let ?stem = "''id-'' @ digits_of now @ ''-'' @ digits_of rnd"
  from extname_shape[of "originalname part"] show ?thesis
  proof
    assume e: "extname (originalname part) = []"
    then have f: "filename now rnd part = (''id-'' @ digits_of now @ ''-'') @ digits_of rnd"
      by (simp add: filename_def Let_def)
    obtain pre where "path_join uploadsDir (filename now rnd part) = pre @ digits_of rnd"
      unfolding f using path_join_suffix by blast
    then show ?thesis
      by (simp add: getMediaType_ends_with_digit[OF conjunct1[OF digits_of_last] conjunct2[OF digits_of_last]])
  next
    assume "\<exists>e. extname (originalname part) = CHR ''.'' # e \<and> CHR ''.'' \<notin> set e"
    then obtain e where e: "extname (originalname part) = CHR ''.'' # e" "CHR ''.'' \<notin> set e" by blast
    then have f: "filename now rnd part = ?stem @ (CHR ''.'' # e)"
      by (simp add: filename_def Let_def)
    obtain pre where "path_join uploadsDir (filename now rnd part) = pre @ CHR ''.'' # e"
      unfolding f using path_join_suffix by blast
    then show ?thesis using getMediaType_ext[OF e(2)] assms e(1) by simp
  qed
qed

lemma errorHandler_unsupported:
  "errorHandler (createError ''Unsupported file format for OCR'' 400) =
     \<lparr>res_status = 400, res_message = ''Unsupported file format for OCR''\<rparr>"
  by (simp add: errorHandler_def createError_name createError_message createError_statusCode
                startsWith_def Let_def)

lemma extract_unsupported:
  assumes "imagePath \<in> files" "getMediaType imagePath = None"
  shows "extractTextFromImage JSON_parse api files imagePath =
           Inl (createError ''Unsupported file format for OCR'' 400)"
  using assms
  by (simp add: extractTextFromImage_def extractTextFromImage_try_def catch_createError)

text \<open>
  Claim C10, amended. For every uploaded file with MIME type \<open>application/pdf\<close> whose
  original name has an extension other than jpg, jpeg, png or webp (in any letter case), or
  none, the allow-list accepts the file and the upload fails with status 400 and the message
  \<open>Unsupported file format for OCR\<close>: the stored file takes its extension from the original
  name, and the OCR client derives the media type from that extension.
\<close>

theorem pdf_accepted_then_unsupported:
  assumes pdf: "mimetype part = ''application/pdf''"
    and ext: "toLowerCase (extname (originalname part)) \<notin> {''.jpg'', ''.jpeg'', ''.png'', ''.webp''}"
  shows "fileFilter part = Inr True
       \<and> snd (upload_route JSON_parse api conv uploadsDir now rnd files (Some part)) =
           Inl \<lparr>res_status = 400, res_message = ''Unsupported file format for OCR''\<rparr>"
proof
  show "fileFilter part = Inr True"
    by (simp add: fileFilter_def allowedTypes_def pdf)
next
  let ?p = "path_join uploadsDir (filename now rnd part)"
  have ff: "fileFilter part = Inr True"
    by (simp add: fileFilter_def allowedTypes_def pdf)
  have x: "extractTextFromImage JSON_parse api (insert ?p files) ?p =
             Inl (createError ''Unsupported file format for OCR'' 400)"
    by (rule extract_unsupported) (simp_all add: stored_path_unsupported[OF ext])
  show "snd (upload_route JSON_parse api conv uploadsDir now rnd files (Some part)) =
           Inl \<lparr>res_status = 400, res_message = ''Unsupported file format for OCR''\<rparr>"
    using x
    by (simp add: upload_route_def upload_single_def ff uploadAndExtract_def pdf Let_def
                  errorHandler_unsupported)
qed

lemma filename_scan_pdf:
  "filename 1700000000000 42 \<lparr>originalname = ''scan.pdf'', mimetype = ''application/pdf'', size_f = 2048\<rparr>
     = ''id-1700000000000-42.pdf''"
  by (simp add: filename_def extname_def basename_def split_pop_def digits_of_42 digits_of_now)

text \<open>
  Claim C10, amended, at \<open>scan.pdf\<close>.
\<close>

theorem pdf_accepted_then_unsupported_witness:
  "snd (upload_route (\<lambda>s. None) (Inr [TextBlock ''{}'']) None ''/srv/uploads'' 1700000000000 42 {}
          (Some \<lparr>originalname = ''scan.pdf'', mimetype = ''application/pdf'', size_f = 2048\<rparr>)) =
     Inl \<lparr>res_status = 400, res_message = ''Unsupported file format for OCR''\<rparr>"
proof -
  have e: "toLowerCase (extname (originalname \<lparr>originalname = ''scan.pdf'', mimetype = ''application/pdf'', size_f = 2048\<rparr>))
             \<notin> {''.jpg'', ''.jpeg'', ''.png'', ''.webp''}"
    by (simp add: extname_def basename_def split_pop_def toLowerCase_def toLowerChar_def lowers_def uppers_def)
  show ?thesis
    using pdf_accepted_then_unsupported[OF _ e, of "\<lambda>s. None" "Inr [TextBlock ''{}'']" None "''/srv/uploads''" 1700000000000 42 "{}"]
    by simp
qed

lemma filename_scan_jpg:
  "filename 1700000000000 42 \<lparr>originalname = ''scan.jpg'', mimetype = ''application/pdf'', size_f = 2048\<rparr>
     = ''id-1700000000000-42.jpg''"
  by (simp add: filename_def extname_def basename_def split_pop_def digits_of_42 digits_of_now)

text \<open>
  Claim C10 as stated fails: a file part declared \<open>application/pdf\<close> and named
  \<open>scan.jpg\<close> is accepted, stored with the extension \<open>.jpg\<close>, sent to the model as
  \<open>image/jpeg\<close>, and the upload succeeds.
\<close>

theorem pdf_mime_with_image_name_counterexample:
  "fileFilter \<lparr>originalname = ''scan.jpg'', mimetype = ''application/pdf'', size_f = 2048\<rparr> = Inr True
   \<and> upload_route (\<lambda>s. if s = ''{}'' then Some (JObj []) else None) (Inr [TextBlock ''{}'']) None
        ''/srv/uploads'' 1700000000000 42 {}
        (Some \<lparr>originalname = ''scan.jpg'', mimetype = ''application/pdf'', size_f = 2048\<rparr>)
      = ({}, Inr \<lparr>extractedData = Map.empty, fileName = ''scan.jpg'', fileSize = 2048,
                  mimeType = ''application/pdf''\<rparr>)"
proof
  show "fileFilter \<lparr>originalname = ''scan.jpg'', mimetype = ''application/pdf'', size_f = 2048\<rparr> = Inr True"
    by (simp add: fileFilter_def allowedTypes_def)
next
  have m: "getMediaType ''/srv/uploads/id-1700000000000-42.jpg'' = Some ''image/jpeg''"
    using getMediaType_jpg[of "''/srv/uploads/id-1700000000000-42''"] by simp
  have x: "extractTextFromImage (\<lambda>s. if s = ''{}'' then Some (JObj []) else None) (Inr [TextBlock ''{}''])
             {''/srv/uploads/id-1700000000000-42.jpg''} ''/srv/uploads/id-1700000000000-42.jpg'' = Inr Map.empty"
    by (simp add: extractTextFromImage_def extractTextFromImage_try_def m match_braces_def
                  normalizeExtractedData_def)
  show "upload_route (\<lambda>s. if s = ''{}'' then Some (JObj []) else None) (Inr [TextBlock ''{}'']) None
        ''/srv/uploads'' 1700000000000 42 {}
        (Some \<lparr>originalname = ''scan.jpg'', mimetype = ''application/pdf'', size_f = 2048\<rparr>)
      = ({}, Inr \<lparr>extractedData = Map.empty, fileName = ''scan.jpg'', fileSize = 2048,
                  mimeType = ''application/pdf''\<rparr>)"
    by (simp add: upload_route_def upload_single_def fileFilter_def allowedTypes_def
                  uploadAndExtract_def filename_scan_jpg path_join_def x Let_def)
qed

subsection \<open>Temporary files (C4)\<close>

lemma stored_path_nonempty: "path_join uploadsDir (filename now rnd part) \<noteq> []"
  by (simp add: path_join_def filename_def Let_def)

text \<open>
  A file that is not HEIC is gone after the request, whether the OCR succeeds or fails.
\<close>

lemma plain_upload_leaves_no_file:
  assumes "mimetype part \<in> set allowedTypes" and "mimetype part \<noteq> ''image/heic''"
  shows "fst (upload_route JSON_parse api conv uploadsDir now rnd files (Some part)) =
           files - {path_join uploadsDir (filename now rnd part)}"
proof (cases "extractTextFromImage JSON_parse api
                (insert (path_join uploadsDir (filename now rnd part)) files)
                (path_join uploadsDir (filename now rnd part))")
  case (Inl e)
  with assms show ?thesis
    by (simp add: upload_route_def upload_single_def fileFilter_def uploadAndExtract_def
                  cleanup_on_error_def stored_path_nonempty Let_def)
next
  case (Inr d)
  with assms show ?thesis
    by (simp add: upload_route_def upload_single_def fileFilter_def uploadAndExtract_def Let_def)
qed

text \<open>
  A HEIC file that was converted: when the OCR succeeds neither file is left, when it fails
  the converted JPEG is left.
\<close>

lemma heic_upload_after_conversion:
  assumes "mimetype part = ''image/heic''"
    and "p = path_join uploadsDir (filename now rnd part)"
    and "j = path_join (parse_dir p) (parse_name p @ ''.jpg'')"
    and "j \<noteq> p"
  shows "fst (upload_route JSON_parse api None uploadsDir now rnd files (Some part)) =
           (case extractTextFromImage JSON_parse api (insert j (insert p files) - {p}) j of
              Inl e \<Rightarrow> insert j (insert p files) - {p}
            | Inr d \<Rightarrow> insert j (insert p files) - {p} - {j})"
  using assms
  by (simp add: upload_route_def upload_single_def fileFilter_def allowedTypes_def
                uploadAndExtract_def convertIfHeic_def convertHeicToJpeg_def
                cleanup_on_error_def Let_def split: sum.splits)

lemma filename_license_heic:
  "filename 1700000000000 42 \<lparr>originalname = ''license.heic'', mimetype = ''image/heic'', size_f = 2048\<rparr>
     = ''id-1700000000000-42.heic''"
  by (simp add: filename_def extname_def basename_def split_pop_def digits_of_42 digits_of_now)

lemma jpeg_path_of_heic:
  "path_join (parse_dir ''/srv/uploads/id-1700000000000-42.heic'')
             (parse_name ''/srv/uploads/id-1700000000000-42.heic'' @ ''.jpg'')
     = ''/srv/uploads/id-1700000000000-42.jpg''"
  by (simp add: path_join_def parse_dir_def parse_name_def extname_def basename_def split_pop_def)

text \<open>
  Claim C4 says that no temporary upload file remains after the upload handler, on every
  failure path, the converted JPEG included. The code breaks it: after a HEIC upload is
  converted, the \<open>catch\<close> block still cleans up \<open>req.file.path\<close>, the HEIC file the
  conversion has already removed, and the JPEG stays on disk when the OCR call fails.
\<close>

theorem heic_jpeg_left_on_ocr_failure:
  "upload_route (\<lambda>s. None)
      (Inl \<lparr>name = ''RateLimitError'', message = ''429 rate_limit_error'', statusCode = None,
            status = StatusNum 429\<rparr>)
      None ''/srv/uploads'' 1700000000000 42 {}
      (Some \<lparr>originalname = ''license.heic'', mimetype = ''image/heic'', size_f = 2048\<rparr>)
   = ({''/srv/uploads/id-1700000000000-42.jpg''},
      Inl \<lparr>res_status = 503,
           res_message = ''OCR service rate limit exceeded. Please try again later.''\<rparr>)"
proof -
  let ?e = "\<lparr>name = ''RateLimitError'', message = ''429 rate_limit_error'', statusCode = None,
            status = StatusNum 429\<rparr>"
  have m: "getMediaType ''/srv/uploads/id-1700000000000-42.jpg'' \<noteq> None"
    using getMediaType_jpg[of "''/srv/uploads/id-1700000000000-42''"] by simp
  have x: "extractTextFromImage (\<lambda>s. None) (Inl ?e) {''/srv/uploads/id-1700000000000-42.jpg''}
             ''/srv/uploads/id-1700000000000-42.jpg'' = Inl (extractTextFromImage_catch ?e)"
    by (rule extract_upstream) (simp_all add: m)
  have c: "errorHandler (extractTextFromImage_catch ?e) =
             \<lparr>res_status = 503, res_message = ''OCR service rate limit exceeded. Please try again later.''\<rparr>"
    using catch_upstream[of ?e] by (simp add: upstream_message_def)
  have s: "{''/srv/uploads/id-1700000000000-42.jpg'', ''/srv/uploads/id-1700000000000-42.heic''}
             - {''/srv/uploads/id-1700000000000-42.heic''} = {''/srv/uploads/id-1700000000000-42.jpg''}"
    by (simp add: insert_Diff_if)
  show ?thesis
    by (simp add: upload_route_def upload_single_def fileFilter_def allowedTypes_def
                  uploadAndExtract_def convertIfHeic_def convertHeicToJpeg_def s
                  filename_license_heic jpeg_path_of_heic cleanup_on_error_def x c
                  path_join_def[of "''/srv/uploads''"] Let_def)
qed

text \<open>
  The converted JPEG is among the files on disk after that request.
\<close>

theorem heic_jpeg_left_on_ocr_failure_witness:
  "''/srv/uploads/id-1700000000000-42.jpg'' \<in>
     fst (upload_route (\<lambda>s. None)
      (Inl \<lparr>name = ''RateLimitError'', message = ''429 rate_limit_error'', statusCode = None,
            status = StatusNum 429\<rparr>)
      None ''/srv/uploads'' 1700000000000 42 {}
      (Some \<lparr>originalname = ''license.heic'', mimetype = ''image/heic'', size_f = 2048\<rparr>))"
  by (simp only: heic_jpeg_left_on_ocr_failure fst_conv insert_iff simp_thms)

subsection \<open>Saving a record (C1, C2, C6)\<close>

lemma example_body_parses: "idDataSchema_safeParse example_body = []"
  by (simp add: idDataSchema_safeParse_def example_body_def name_issue_def max_issue_def
                sex_issue_def sex_enum_def confidence_issue_def)

lemma example_new_valid: "validate (new_IDData i 1000 example_body) = []"
  by (simp add: validate_def new_IDData_def example_body_def maxlength_def required_def
                range_validator_def validator_def middleInitial_ok_def addressZip_ok_def dob_ok_def enum_validator_def
                sex_enum_def trim_def isSpace_def isDigit_def isUpperLetter_def js_char_defs)

lemma example_hooked:
  "(pre_save 1001 (new_IDData i 1000 example_body))\<lparr>modified := {}\<rparr> = example_doc i"
  by (simp add: pre_save_def isModified_def new_IDData_def example_body_def example_doc_def
                present_def trim_def isSpace_def js_char_defs Let_def)

lemma example_oid: "oid (pre_save 1001 (new_IDData i 1000 example_body)) = i"
  by (simp add: pre_save_def new_IDData_def Let_def)

lemma save_example:
  "i \<notin> oid ` set db \<Longrightarrow>
     saveData i 1000 1001 db example_body = (db @ [example_doc i], Inr (response_of (example_doc i)))"
  by (simp add: saveData_def example_body_parses save_def example_new_valid example_oid
                example_hooked Let_def)

lemma pre_save_keeps:
  "id_f (pre_save t d) = id_f d" "lastName (pre_save t d) = lastName d"
  "firstName (pre_save t d) = firstName d" "middleInitial (pre_save t d) = middleInitial d"
  "addressStreet (pre_save t d) = addressStreet d" "addressCity (pre_save t d) = addressCity d"
  "addressState (pre_save t d) = addressState d" "addressZip (pre_save t d) = addressZip d"
  "sex (pre_save t d) = sex d" "dob (pre_save t d) = dob d"
  "confidence (pre_save t d) = confidence d" "sourceFileName (pre_save t d) = sourceFileName d"
  "oid (pre_save t d) = oid d" "extractedAt (pre_save t d) = extractedAt d"
  by (auto simp: pre_save_def Let_def)

lemma new_IDData_fields:
  "id_f (new_IDData i n b) = map_option trim (id_f b)"
  "lastName (new_IDData i n b) = map_option trim (lastName b)"
  "firstName (new_IDData i n b) = map_option trim (firstName b)"
  "middleInitial (new_IDData i n b) = map_option (\<lambda>s. toUpperCase (trim s)) (middleInitial b)"
  "addressStreet (new_IDData i n b) = map_option trim (addressStreet b)"
  "addressCity (new_IDData i n b) = map_option trim (addressCity b)"
  "addressState (new_IDData i n b) = map_option trim (addressState b)"
  "addressZip (new_IDData i n b) = map_option trim (addressZip b)"
  "sex (new_IDData i n b) = map_option (\<lambda>s. toUpperCase (trim s)) (sex b)"
  "dob (new_IDData i n b) = map_option trim (dob b)"
  "confidence (new_IDData i n b) = (if confidence b = Missing then Null else confidence b)"
  "oid (new_IDData i n b) = i"
  by (cases "confidence b"; simp add: new_IDData_def)+

lemma saveData_success:
  assumes "saveData new_id now t db body = (db', Inr r)"
  defines "saved \<equiv> (pre_save t (new_IDData new_id now body))\<lparr>modified := {}\<rparr>"
  shows "idDataSchema_safeParse body = []"
    and "validate (new_IDData new_id now body) = []"
    and "new_id \<notin> oid ` set db"
    and "db' = db @ [saved]"
    and "r = response_of saved"
proof -
  have oid: "oid (pre_save t (new_IDData new_id now body)) = new_id"
    by (simp add: pre_save_def new_IDData_def Let_def)
  from assms(1) show p: "idDataSchema_safeParse body = []"
    by (auto simp: saveData_def Let_def split: if_splits)
  from assms(1) p show v: "validate (new_IDData new_id now body) = []"
    by (auto simp: saveData_def save_def Let_def split: if_splits sum.splits save_error.splits)
  from assms(1) p v show d: "new_id \<notin> oid ` set db"
    by (auto simp: saveData_def save_def oid Let_def split: if_splits)
  from assms(1) p v d show "db' = db @ [saved]" "r = response_of saved"
    by (auto simp: saveData_def save_def oid saved_def Let_def split: if_splits)
qed

lemma parsed_has_lastName: "idDataSchema_safeParse body = [] \<Longrightarrow> lastName body \<noteq> None"
  by (auto simp: idDataSchema_safeParse_def name_issue_def split: option.splits)

lemma parsed_sex: "idDataSchema_safeParse body = [] \<Longrightarrow> sex body = Some s \<Longrightarrow> s \<in> set sex_enum"
  by (auto simp: idDataSchema_safeParse_def sex_issue_def split: if_splits)

lemma valid_sex:
  "validate doc = [] \<Longrightarrow> sex doc = Some s \<Longrightarrow> s \<in> set sex_enum"
  by (auto simp: validate_def enum_validator_def split: if_splits)

lemma sex_setter_fixed:
  assumes "s \<in> set sex_enum" "toUpperCase (trim s) \<in> set sex_enum"
  shows "toUpperCase (trim s) = s"
proof -
  from assms(1) have "s = ''M'' \<or> s = ''F'' \<or> s = ''Male'' \<or> s = ''Female''"
    by (simp add: sex_enum_def)
  then show ?thesis
  proof (elim disjE)
    assume "s = ''M''" then show ?thesis by (simp add: trim_def isSpace_def js_char_defs)
  next
    assume "s = ''F''" then show ?thesis by (simp add: trim_def isSpace_def js_char_defs)
  next
    assume "s = ''Male''"
    then have "toUpperCase (trim s) = ''MALE''" by (simp add: trim_def isSpace_def js_char_defs)
    with assms(2) show ?thesis by (simp add: sex_enum_def)
  next
    assume "s = ''Female''"
    then have "toUpperCase (trim s) = ''FEMALE''" by (simp add: trim_def isSpace_def js_char_defs)
    with assms(2) show ?thesis by (simp add: sex_enum_def)
  qed
qed

lemma accepted_sex:
  assumes "idDataSchema_safeParse body = []" "validate (new_IDData new_id now body) = []"
  shows "map_option (\<lambda>s. toUpperCase (trim s)) (sex body) = sex body"
proof (cases "sex body")
  case None
  then show ?thesis by simp
next
  case (Some s)
  have "sex (new_IDData new_id now body) = Some (toUpperCase (trim s))"
    by (simp add: new_IDData_def Some)
  from valid_sex[OF assms(2) this] parsed_sex[OF assms(1) Some]
  show ?thesis by (simp add: Some sex_setter_fixed)
qed

lemma find_append_last:
  "\<forall>x\<in>set xs. \<not> P x \<Longrightarrow> P y \<Longrightarrow> find P (xs @ [y]) = Some y"
  by (induction xs) auto

lemma lower_hex_fixed:
  assumes "\<forall>c\<in>set i. c \<in> set ''0123456789abcdef''"
  shows "toLowerCase i = i"
proof -
  have "set ''0123456789abcdef'' \<inter> set uppers = {}" by (simp add: uppers_def)
  with assms have "\<forall>c\<in>set i. c \<notin> set uppers" by blast
  then have "map toLowerChar i = map (\<lambda>c. c) i"
    by (intro map_cong refl) (simp add: toLowerChar_other)
  then show ?thesis by (simp add: toLowerCase_def)
qed

lemma lower_hex_is_hex:
  assumes "\<forall>c\<in>set i. c \<in> set ''0123456789abcdef''"
  shows "\<forall>c\<in>set i. isHexDigit c"
proof -
  have "set ''0123456789abcdef'' \<subseteq> set ''0123456789abcdefABCDEF''" by simp
  with assms show ?thesis unfolding isHexDigit_def by blast
qed

lemma getDataById_last:
  assumes "length i = 24" "\<forall>c\<in>set i. c \<in> set ''0123456789abcdef''"
    and "i \<notin> oid ` set db" "oid doc = i"
  shows "getDataById (db @ [doc]) i = Inr (response_of doc)"
proof -
  have ne: "i \<noteq> []" using assms(1) by auto
  have "find (\<lambda>d. oid d = i) (db @ [doc]) = Some doc"
    by (rule find_append_last) (use assms(3,4) in \<open>auto simp: image_iff\<close>)
  then have "findById (db @ [doc]) i = Some doc"
    by (simp add: findById_def lower_hex_fixed[OF assms(2)])
  then show ?thesis
    using ne assms(1) lower_hex_is_hex[OF assms(2)]
    by (simp add: getDataById_def)
qed

text \<open>
  Claim C1, amended. For every record the save endpoint accepts (with the ObjectId it gives
  the record), fetching it by the returned id yields the response the save returned, and
  every identity field in it is the submitted value after the setters of the document
  schema: the strings trimmed, the middle initial also in upper case. The sex comes back as
  submitted; so does a confidence that was submitted, and a body without confidence comes
  back with the confidence \<open>null\<close>, the default of the document schema.
\<close>

theorem save_then_fetch:
  assumes saved: "saveData new_id now save_time db body = (db', Inr r)"
    and oid24: "length new_id = 24"
    and oidhex: "\<forall>c\<in>set new_id. c \<in> set ''0123456789abcdef''"
  shows "getDataById db' (data_id r) = Inr r
       \<and> data_extractedData r =
           \<lparr>id_f = map_option trim (id_f body),
            lastName = map_option trim (lastName body),
            firstName = map_option trim (firstName body),
            middleInitial = map_option (\<lambda>s. toUpperCase (trim s)) (middleInitial body),
            addressStreet = map_option trim (addressStreet body),
            addressCity = map_option trim (addressCity body),
            addressState = map_option trim (addressState body),
            addressZip = map_option trim (addressZip body),
            sex = sex body,
            dob = map_option trim (dob body),
            confidence = (if confidence body = Missing then Null else confidence body)\<rparr>"
proof
  let ?saved = "(pre_save save_time (new_IDData new_id now body))\<lparr>modified := {}\<rparr>"
  note s = saveData_success[OF saved]
  have o: "oid ?saved = new_id" by (simp add: pre_save_def new_IDData_def Let_def)
  have i: "data_id r = new_id" by (simp add: s(5) response_of_def o)
  have "getDataById (db @ [?saved]) new_id = Inr (response_of ?saved)"
    by (rule getDataById_last[OF oid24 oidhex s(3) o])
  moreover have "data_id (response_of ?saved) = new_id"
    by (simp add: response_of_def o)
  ultimately show "getDataById db' (data_id r) = Inr r"
    by (simp only: s(4) s(5))
  show "data_extractedData r =
           \<lparr>id_f = map_option trim (id_f body),
            lastName = map_option trim (lastName body),
            firstName = map_option trim (firstName body),
            middleInitial = map_option (\<lambda>s. toUpperCase (trim s)) (middleInitial body),
            addressStreet = map_option trim (addressStreet body),
            addressCity = map_option trim (addressCity body),
            addressState = map_option trim (addressState body),
            addressZip = map_option trim (addressZip body),
            sex = sex body,
            dob = map_option trim (dob body),
            confidence = (if confidence body = Missing then Null else confidence body)\<rparr>"
    by (simp add: s(5) response_of_def pre_save_keeps new_IDData_fields
                  accepted_sex[OF s(1) s(2)])
qed

lemma example_id_ok:
  "length example_id = 24" "\<forall>c\<in>set example_id. c \<in> set ''0123456789abcdef''"
  by (simp_all add: example_id_def)

text \<open>
  Claim C1, amended, at the example body.
\<close>

theorem save_then_fetch_witness:
  "getDataById (fst (saveData example_id 1000 1001 [] example_body)) example_id
     = Inr (response_of (example_doc example_id))"
proof -
  have e: "saveData example_id 1000 1001 [] example_body =
             ([example_doc example_id], Inr (response_of (example_doc example_id)))"
    using save_example[of example_id "[]"] by simp
  have i: "data_id (response_of (example_doc example_id)) = example_id"
    by (simp add: response_of_def example_doc_def)
  from save_then_fetch[OF e example_id_ok]
  have "getDataById [example_doc example_id] (data_id (response_of (example_doc example_id)))
          = Inr (response_of (example_doc example_id))"
    by (rule conjunct1)
  then show ?thesis unfolding i by (simp add: e)
qed

text \<open>
  Claim C1 as stated fails: the example body is accepted, and the fetched record has the
  last name without its trailing space and the middle initial in upper case, not the values
  submitted.
\<close>

theorem save_then_fetch_counterexample:
  "(\<exists>r. getDataById (fst (saveData example_id 1000 1001 [] example_body)) example_id = Inr r
        \<and> lastName (data_extractedData r) = Some ''La Rue''
        \<and> middleInitial (data_extractedData r) = Some ''Q'')
   \<and> lastName example_body = Some ''La Rue ''
   \<and> middleInitial example_body = Some ''q''"
proof -
  have e: "saveData example_id 1000 1001 [] example_body =
             ([example_doc example_id], Inr (response_of (example_doc example_id)))"
    using save_example[of example_id "[]"] by simp
  have "getDataById ([] @ [example_doc example_id]) example_id = Inr (response_of (example_doc example_id))"
    by (rule getDataById_last[OF example_id_ok]) (simp_all add: example_doc_def)
  then have g: "getDataById [example_doc example_id] example_id = Inr (response_of (example_doc example_id))"
    by simp
  show ?thesis
    unfolding e fst_conv g
    by (simp add: response_of_def example_doc_def example_body_def)
qed

text \<open>
  The hook by itself does what the second half of claim C2 says: after it the flag is true
  exactly when it was true before or one of the name, id and street paths is modified.
\<close>

lemma pre_save_flag:
  "isManuallyEdited (pre_save t doc) \<longleftrightarrow>
     isManuallyEdited doc \<or> modified doc \<inter> {''lastName'', ''firstName'', ''id'', ''addressStreet''} \<noteq> {}"
  by (auto simp: pre_save_def isModified_def Let_def)

lemma new_IDData_marks_lastName:
  "lastName body \<noteq> None \<Longrightarrow> ''lastName'' \<in> modified (new_IDData new_id now body)"
  by (auto simp: new_IDData_def present_def)

text \<open>
  Claim C2 says that the flag "manually edited" is false at creation. The controller passes
  \<open>isManuallyEdited: false\<close> and says so in its comment, but on a new document every path
  given to the constructor counts as modified, the last name is always given, and the hook
  sets the flag: every record the save endpoint creates is stored, and reported, with the
  flag true.
\<close>

theorem created_record_is_flagged_edited:
  assumes "saveData new_id now save_time db body = (db', Inr r)"
  shows "meta_isManuallyEdited (data_metadata r) \<and> isManuallyEdited (last db')"
proof -
  let ?new = "new_IDData new_id now body"
  note s = saveData_success[OF assms]
  have "''lastName'' \<in> modified ?new"
    using parsed_has_lastName[OF s(1)] by (rule new_IDData_marks_lastName)
  then have "isManuallyEdited (pre_save save_time ?new)"
    unfolding pre_save_flag by blast
  then show ?thesis
    by (simp add: s(4) s(5) response_of_def)
qed

text \<open>
  The flag in the response for the example body.
\<close>

theorem created_record_is_flagged_edited_witness:
  "\<exists>r. snd (saveData example_id 1000 1001 [] example_body) = Inr r
       \<and> meta_isManuallyEdited (data_metadata r)"
proof -
  have e: "saveData example_id 1000 1001 [] example_body =
             ([example_doc example_id], Inr (response_of (example_doc example_id)))"
    using save_example[of example_id "[]"] by simp
  from created_record_is_flagged_edited[OF e]
  have "meta_isManuallyEdited (data_metadata (response_of (example_doc example_id)))"
    by (rule conjunct1)
  then show ?thesis by (simp add: e)
qed

lemma validate_enum:
  "enum_validator (sex doc) \<noteq> [] \<Longrightarrow> validate doc \<noteq> []"
  by (simp add: validate_def)

lemma mixed_case_sex_fails_enum:
  assumes "s = ''Male'' \<or> s = ''Female''"
  shows "enum_validator (Some (toUpperCase (trim s))) \<noteq> []"
  using assms
proof
  assume "s = ''Male''"
  then have "toUpperCase (trim s) = ''MALE''" by (simp add: trim_def isSpace_def js_char_defs)
  then show ?thesis by (simp add: enum_validator_def sex_enum_def)
next
  assume "s = ''Female''"
  then have "toUpperCase (trim s) = ''FEMALE''" by (simp add: trim_def isSpace_def js_char_defs)
  then show ?thesis by (simp add: enum_validator_def sex_enum_def)
qed

text \<open>
  Claim C6 says that a valid body whose sex is \<open>M\<close>, \<open>F\<close>, \<open>Male\<close> or \<open>Female\<close> is
  persisted without a validation error. The request schema accepts all four, and the
  document schema lists all four in its \<open>enum\<close>; but its \<open>uppercase\<close> setter turns \<open>Male\<close>
  into \<open>MALE\<close> before the enum is checked, so no body with \<open>Male\<close> or \<open>Female\<close> is ever
  persisted: the save ends in a 400 error and the collection is unchanged.
\<close>

theorem male_female_never_persisted:
  assumes "sex body = Some ''Male'' \<or> sex body = Some ''Female''"
  shows "\<exists>e. saveData new_id now save_time db body = (db, Inl e) \<and> statusCode e = Some 400"
proof (cases "idDataSchema_safeParse body = []")
  case False
  then show ?thesis by (simp add: saveData_def Let_def createError_def)
next
  case True
  from assms obtain s where s: "sex body = Some s" "s = ''Male'' \<or> s = ''Female''" by auto
  have "sex (new_IDData new_id now body) = Some (toUpperCase (trim s))"
    by (simp add: new_IDData_def s(1))
  then have "validate (new_IDData new_id now body) \<noteq> []"
    using mixed_case_sex_fails_enum[OF s(2)] validate_enum by metis
  then show ?thesis by (simp add: saveData_def True save_def Let_def createError_def)
qed

lemma example_male_rejected:
  "saveData example_id 1000 1001 [] (example_body\<lparr>sex := Some ''Male''\<rparr>) =
     ([], Inl (createError
                ''Database validation error: `MALE` is not a valid enum value for path `sex`.'' 400))"
  by (simp add: saveData_def save_def idDataSchema_safeParse_def example_body_def name_issue_def
                max_issue_def sex_issue_def sex_enum_def confidence_issue_def
                validate_def new_IDData_def maxlength_def required_def range_validator_def
                validator_def middleInitial_ok_def addressZip_ok_def dob_ok_def enum_validator_def
                trim_def isSpace_def isDigit_def isUpperLetter_def js_char_defs Let_def)

lemma example_male_parses: "idDataSchema_safeParse (example_body\<lparr>sex := Some ''Male''\<rparr>) = []"
  by (simp add: idDataSchema_safeParse_def example_body_def name_issue_def max_issue_def
                sex_issue_def sex_enum_def confidence_issue_def)

text \<open>
  The example body with sex \<open>Male\<close>: valid under the request schema, rejected with 400.
\<close>

theorem male_female_never_persisted_witness:
  "idDataSchema_safeParse (example_body\<lparr>sex := Some ''Male''\<rparr>) = []
   \<and> (\<exists>e. saveData example_id 1000 1001 [] (example_body\<lparr>sex := Some ''Male''\<rparr>) = ([], Inl e)
          \<and> statusCode e = Some 400)"
  using male_female_never_persisted[of "example_body\<lparr>sex := Some ''Male''\<rparr>" example_id 1000 1001 "[]"]
        example_male_parses
  by simp

subsection \<open>Search (C8)\<close>

lemma match_here_lits:
  "match_here (map Lit t) s \<longleftrightarrow> startsWith (toLowerCase s) (toLowerCase t)"
proof (induction t arbitrary: s)
  case Nil
  then show ?case by (simp add: startsWith_def toLowerCase_def)
next
  case (Cons p ps)
  show ?case
  proof (cases s)
    case Nil
    then show ?thesis by (simp add: startsWith_def toLowerCase_def)
  next
    case (Cons c cs)
    with Cons.IH[of cs] show ?thesis
      by (auto simp: startsWith_def toLowerCase_def)
  qed
qed

lemma regex_search_lits:
  "regex_search (map Lit t) s \<longleftrightarrow> includes_str (toLowerCase s) (toLowerCase t)"
proof (induction s)
  case Nil
  then show ?case by (cases t) (simp_all add: toLowerCase_def)
next
  case (Cons c cs)
  have "toLowerCase (c # cs) = toLowerChar c # toLowerCase cs" by (simp add: toLowerCase_def)
  with Cons match_here_lits[of t "c # cs"] show ?case by simp
qed

lemma parse_regex_plain:
  assumes "\<forall>c\<in>set t. c \<notin> set metachars \<and> c \<noteq> CHR ''.''"
  shows "parse_regex t = Some (map Lit t)"
proof -
  have "map (\<lambda>c. if c = CHR ''.'' then AnyChar else Lit c) t = map Lit t"
    using assms by (intro map_cong refl) simp
  moreover have "\<not> (\<exists>c\<in>set t. c \<in> set metachars)" using assms by simp
  ultimately show ?thesis by (simp add: parse_regex_def)
qed

lemma field_matches_plain:
  "field_matches (map Lit t) v = spec_occurs_in t v"
  by (simp add: field_matches_def spec_occurs_in_def regex_search_lits split: option.splits)

lemma length_trim: "length (trim s) \<le> length s"
proof -
  have "length (trim s) = length (dropWhile isSpace (rev (dropWhile isSpace s)))"
    by (simp add: trim_def)
  also have "\<dots> \<le> length (rev (dropWhile isSpace s))" by (rule length_dropWhile_le)
  also have "\<dots> \<le> length s" by (simp add: length_dropWhile_le)
  finally show ?thesis .
qed

text \<open>
  Claim C8, amended. The search endpoint returns HTTP 400 whenever the query, once trimmed,
  is shorter than 2 characters, so for every query shorter than 2 characters; for every
  query whose trimmed form has at least 2 characters and no regular-expression
  metacharacter, it returns exactly the records in which the trimmed query occurs as a
  case-insensitive substring of the id, firstName or lastName field, latest first.
\<close>

theorem search_trims_then_matches:
  "(length (trim q) < 2 \<longrightarrow>
      searchData db (Some q) =
        Some (Inl (createError ''Search term must be at least 2 characters long'' 400)))
   \<and> (length q < 2 \<longrightarrow>
      searchData db (Some q) =
        Some (Inl (createError ''Search term must be at least 2 characters long'' 400)))
   \<and> (2 \<le> length (trim q) \<and> (\<forall>c\<in>set (trim q). c \<notin> set metachars \<and> c \<noteq> CHR ''.'') \<longrightarrow>
      searchData db (Some q) =
        Some (Inr (map response_of
          (sort_extractedAt_desc
             (filter (\<lambda>doc. spec_occurs_in (trim q) (id_f doc)
                           \<or> spec_occurs_in (trim q) (lastName doc)
                           \<or> spec_occurs_in (trim q) (firstName doc)) db)))))"
proof (intro conjI impI)
  assume "length (trim q) < 2"
  then show "searchData db (Some q) =
        Some (Inl (createError ''Search term must be at least 2 characters long'' 400))"
    by (simp add: searchData_def)
next
  assume "length q < 2"
  with length_trim[of q] have "length (trim q) < 2" by simp
  then show "searchData db (Some q) =
        Some (Inl (createError ''Search term must be at least 2 characters long'' 400))"
    by (simp add: searchData_def)
next
  assume a: "2 \<le> length (trim q) \<and> (\<forall>c\<in>set (trim q). c \<notin> set metachars \<and> c \<noteq> CHR ''.'')"
  then have p: "parse_regex (trim q) = Some (map Lit (trim q))"
    by (intro parse_regex_plain) simp
  have "q \<noteq> []"
  proof
    assume "q = []"
    then have "length (trim q) = 0" by (simp add: trim_def)
    with a show False by simp
  qed
  with a show "searchData db (Some q) =
        Some (Inr (map response_of
          (sort_extractedAt_desc
             (filter (\<lambda>doc. spec_occurs_in (trim q) (id_f doc)
                           \<or> spec_occurs_in (trim q) (lastName doc)
                           \<or> spec_occurs_in (trim q) (firstName doc)) db))))"
    by (simp add: searchData_def findBySearchTerm_def p field_matches_plain)
qed

lemma example_db:
  "fst (saveData example_id 1000 1001 [] example_body) = [example_doc example_id]"
  using save_example[of example_id "[]"] by simp

lemma sort_single: "sort_extractedAt_desc [d] = [d]"
  by (simp add: sort_extractedAt_desc_def)

text \<open>
  Claim C8, amended, at the query \<open>rue\<close> with a space on either side.
\<close>

theorem search_trims_then_matches_witness:
  "searchData (fst (saveData example_id 1000 1001 [] example_body)) (Some '' rue '')
     = Some (Inr [response_of (example_doc example_id)])"
proof -
  have t: "trim '' rue '' = ''rue''" by (simp add: trim_def isSpace_def)
  have m: "\<forall>c\<in>set ''rue''. c \<notin> set metachars \<and> c \<noteq> CHR ''.''"
    by (simp add: metachars_def)
  have o: "spec_occurs_in ''rue'' (lastName (example_doc example_id))"
    by (simp add: spec_occurs_in_def example_doc_def startsWith_def js_char_defs)
  from search_trims_then_matches[of "'' rue ''" "[example_doc example_id]"] m
  have "searchData [example_doc example_id] (Some '' rue '') =
        Some (Inr (map response_of
          (sort_extractedAt_desc
             (filter (\<lambda>doc. spec_occurs_in ''rue'' (id_f doc)
                           \<or> spec_occurs_in ''rue'' (lastName doc)
                           \<or> spec_occurs_in ''rue'' (firstName doc)) [example_doc example_id]))))"
    unfolding t by simp
  then show ?thesis
    by (simp add: example_db o sort_single)
qed

text \<open>
  Claim C8 as stated fails. The query \<open>a\<close> followed by a space has 2 characters and
  occurs in the last name \<open>La Rue\<close>, yet the answer is 400, since the query is trimmed
  first; and the query \<open>a.r\<close> occurs in no field, yet the record is returned, since the
  query is used as a regular expression.
\<close>

theorem search_counterexample:
  "spec_occurs_in ''a '' (lastName (example_doc example_id))
   \<and> searchData (fst (saveData example_id 1000 1001 [] example_body)) (Some ''a '')
       = Some (Inl (createError ''Search term must be at least 2 characters long'' 400))
   \<and> \<not> spec_occurs_in ''a.r'' (id_f (example_doc example_id))
   \<and> \<not> spec_occurs_in ''a.r'' (lastName (example_doc example_id))
   \<and> \<not> spec_occurs_in ''a.r'' (firstName (example_doc example_id))
   \<and> searchData (fst (saveData example_id 1000 1001 [] example_body)) (Some ''a.r'')
       = Some (Inr [response_of (example_doc example_id)])"
proof (intro conjI)
  show "spec_occurs_in ''a '' (lastName (example_doc example_id))"
    by (simp add: spec_occurs_in_def example_doc_def startsWith_def js_char_defs)
  show "searchData (fst (saveData example_id 1000 1001 [] example_body)) (Some ''a '')
       = Some (Inl (createError ''Search term must be at least 2 characters long'' 400))"
    by (simp add: searchData_def trim_def isSpace_def)
  show "\<not> spec_occurs_in ''a.r'' (id_f (example_doc example_id))"
    by (simp add: spec_occurs_in_def example_doc_def startsWith_def js_char_defs)
  show "\<not> spec_occurs_in ''a.r'' (lastName (example_doc example_id))"
    by (simp add: spec_occurs_in_def example_doc_def startsWith_def js_char_defs)
  show "\<not> spec_occurs_in ''a.r'' (firstName (example_doc example_id))"
    by (simp add: spec_occurs_in_def example_doc_def startsWith_def js_char_defs)
  have t: "trim ''a.r'' = ''a.r''" by (simp add: trim_def isSpace_def)
  have p: "parse_regex ''a.r'' = Some [Lit (CHR ''a''), AnyChar, Lit (CHR ''r'')]"
    by (simp add: parse_regex_def metachars_def)
  have f: "field_matches [Lit (CHR ''a''), AnyChar, Lit (CHR ''r'')] (lastName (example_doc example_id))"
    by (simp add: field_matches_def example_doc_def js_char_defs)
  show "searchData (fst (saveData example_id 1000 1001 [] example_body)) (Some ''a.r'')
       = Some (Inr [response_of (example_doc example_id)])"
    by (simp add: example_db searchData_def t findBySearchTerm_def p f sort_single)
qed

subsection \<open>Pagination (C9)\<close>

lemma digits_of_all_digits: "\<forall>c\<in>set (digits_of n). isDigit c"
proof (induction n rule: digits_of.induct)
  case (1 n)
  show ?case
  proof (cases "n < 10")
    case True
    then show ?thesis
      using digit_char_in[of n] by (subst digits_of.simps) (simp add: isDigit_def)
  next
    case False
    with "1" have "\<forall>c\<in>set (digits_of (n div 10)). isDigit c" by simp
    moreover have "isDigit (digit_char (n mod 10))"
      using digit_char_in[of "n mod 10"] by (simp add: isDigit_def)
    ultimately show ?thesis using False by (subst digits_of.simps) simp
  qed
qed

lemma digit_value_digit_char: "d < 10 \<Longrightarrow> digit_value (digit_char d) = int d"
proof -
  assume "d < 10"
  then have "d \<in> {0,1,2,3,4,5,6,7,8,9}" by auto
  then show ?thesis
    by (elim insertE emptyE) (simp_all add: digit_value_def digit_char_def)
qed

lemma decimal_value_digits_of:
  "foldl (\<lambda>acc c. acc * 10 + digit_value c) 0 (digits_of n) = int n"
proof (induction n rule: digits_of.induct)
  case (1 n)
  show ?case
  proof (cases "n < 10")
    case True
    then show ?thesis
      by (subst digits_of.simps) (simp add: digit_value_digit_char)
  next
    case False
    with "1" have "foldl (\<lambda>acc c. acc * 10 + digit_value c) 0 (digits_of (n div 10)) = int (n div 10)"
      by simp
    moreover have "digit_value (digit_char (n mod 10)) = int (n mod 10)"
      by (rule digit_value_digit_char) simp
    ultimately show ?thesis using False
      by (subst digits_of.simps) (simp add: zdiv_int zmod_int)
  qed
qed

lemma digit_is_plain:
  assumes "isDigit c"
  shows "\<not> isSpace c" "c \<noteq> CHR ''-''" "c \<noteq> CHR ''+''" "c \<noteq> CHR ''x''" "c \<noteq> CHR ''X''"
proof -
  have "set ''0123456789'' \<inter> (set [CHR 0x09, CHR 0x0A, CHR 0x0B, CHR 0x0C, CHR 0x0D, CHR '' '']
          \<union> set ''-+xX'') = {}"
    by simp
  moreover from assms have "c \<in> set ''0123456789''" by (simp only: isDigit_def)
  ultimately have n: "c \<notin> set [CHR 0x09, CHR 0x0A, CHR 0x0B, CHR 0x0C, CHR 0x0D, CHR '' ''] \<union> set ''-+xX''"
    by (meson disjoint_iff)
  from n show "\<not> isSpace c" by (simp only: isSpace_def Un_iff) simp
  from n have "c \<notin> set ''-+xX''" by (simp only: Un_iff) simp
  then show "c \<noteq> CHR ''-''" "c \<noteq> CHR ''+''" "c \<noteq> CHR ''x''" "c \<noteq> CHR ''X''" by simp_all
qed

text \<open>
  \<open>parseInt\<close> reads a decimal numeral as the number it writes.
\<close>

lemma parseInt_digits_of:
  "parseInt (digits_of n) = (if safe_integer (int n) then Exact (int n) else Inexact)"
proof -
  let ?s = "digits_of n"
  have ne: "?s \<noteq> []" using digits_of_last by blast
  then obtain c cs where s: "?s = c # cs" by (cases ?s) auto
  have all: "\<forall>c\<in>set ?s. isDigit c" by (rule digits_of_all_digits)
  with s have c: "isDigit c" by simp
  have d1: "dropWhile isSpace ?s = ?s" using digit_is_plain(1)[OF c] by (simp add: s)
  have x: "take 2 ?s \<noteq> ''0x'' \<and> take 2 ?s \<noteq> ''0X''"
  proof (cases cs)
    case Nil
    then show ?thesis by (simp add: s)
  next
    case (Cons e es)
    with all s have "isDigit e" by simp
    from digit_is_plain(4,5)[OF this] show ?thesis by (simp add: s Cons)
  qed
  have tw: "takeWhile isDigit ?s = ?s" using all by (simp add: takeWhile_eq_all_conv)
  have hd: "hd ?s \<noteq> CHR ''-''" "hd ?s \<noteq> CHR ''+''"
    using digit_is_plain(2,3)[OF c] by (simp_all add: s)
  have s2: "(if ?s \<noteq> [] \<and> (hd ?s = CHR ''-'' \<or> hd ?s = CHR ''+'') then tl ?s else ?s) = ?s"
    using hd by simp
  have neg: "(?s \<noteq> [] \<and> hd ?s = CHR ''-'') = False" using hd by simp
  have m: "digits_value 10 ?s = Some (int n)"
    using ne by (simp add: digits_value_def decimal_value_digits_of)
  show ?thesis
    unfolding parseInt_def Let_def d1 s2 neg tw m
    using x by simp
qed

lemma parseInt_or_digits_of:
  "safe_integer (int n) \<Longrightarrow> parseInt_or (Some (digits_of n)) d = Some (if n = 0 then d else int n)"
  by (simp add: parseInt_or_def parseInt_digits_of)

lemma parseInt_or_requested:
  "safe_integer (spec_requested n d) \<Longrightarrow> n \<noteq> None \<longrightarrow> safe_integer (int (the n)) \<Longrightarrow>
     parseInt_or (map_option digits_of n) d = Some (spec_requested n d)"
  by (cases n) (auto simp: parseInt_or_def parseInt_digits_of spec_requested_def)

lemma spec_requested_pos: "0 < d \<Longrightarrow> 1 \<le> spec_requested n d"
  by (cases n) (auto simp: spec_requested_def)

lemma spec_requested_the:
  "0 < d \<Longrightarrow> safe_integer (spec_requested n d) \<Longrightarrow> n \<noteq> None \<longrightarrow> safe_integer (int (the n))"
  by (cases n) (auto simp: spec_requested_def safe_integer_def split: if_splits)

text \<open>
  Claim C9, amended. For every request whose page and limit parameters are absent or
  decimal numerals, and for every record count, the paginated listing reports \<open>hasMore\<close>
  as true if and only if \<open>page * limit < total\<close>, where page is the number the request
  writes, or 1 when the parameter is absent or 0, and limit is the number the request
  writes, or 10 when the parameter is absent or 0; that page is the \<open>currentPage\<close> of the
  listing. The numbers are safe integers.
\<close>

theorem listing_hasMore:
  assumes prod: "spec_requested p 1 * spec_requested l 10 \<le> 9007199254740991"
    and total: "int (length db) \<le> 9007199254740991"
  shows "\<exists>r. getAllData db (map_option digits_of p) (map_option digits_of l) = Some (Inr r)
            \<and> currentPage (list_pagination r) = spec_requested p 1
            \<and> totalRecords (list_pagination r) = length db
            \<and> (hasMore (list_pagination r) \<longleftrightarrow>
                 spec_requested p 1 * spec_requested l 10 < int (length db))"
proof -
  define P where "P = spec_requested p 1"
  define L where "L = spec_requested l 10"
  have P1: "1 \<le> P" unfolding P_def by (rule spec_requested_pos) simp
  have L1: "1 \<le> L" unfolding L_def by (rule spec_requested_pos) simp
  have PL: "P * L \<le> 9007199254740991" using prod by (simp add: P_def L_def)
  have "P * 1 \<le> P * L" using P1 L1 by (intro mult_left_mono) simp_all
  then have Ple: "P \<le> P * L" by simp
  have "1 * L \<le> P * L" using P1 L1 by (intro mult_right_mono) simp_all
  then have Lle: "L \<le> P * L" by simp
  have sk0: "0 \<le> (P - 1) * L" using P1 L1 by simp
  have "(P - 1) * L \<le> P * L" using L1 by (intro mult_right_mono) simp_all
  with PL sk0 have sk: "safe_integer ((P - 1) * L)" by (simp add: safe_integer_def)
  have Pb: "P \<le> 9007199254740991" using Ple PL by linarith
  have Lb: "L \<le> 9007199254740991" using Lle PL by linarith
  have PL0: "0 \<le> P * L" using P1 Ple by linarith
  have sP: "safe_integer P" using P1 Pb by (simp add: safe_integer_def)
  have sL: "safe_integer L" using L1 Lb by (simp add: safe_integer_def)
  have sPL: "safe_integer (P * L)" using PL0 PL by (simp add: safe_integer_def)
  have st: "safe_integer (int (length db))" using total by (simp add: safe_integer_def)
  have pp: "parseInt_or (map_option digits_of p) 1 = Some P"
    unfolding P_def
    by (rule parseInt_or_requested) (use sP spec_requested_the[of 1 p] in \<open>simp_all add: P_def\<close>)
  have pl: "parseInt_or (map_option digits_of l) 10 = Some L"
    unfolding L_def
    by (rule parseInt_or_requested) (use sL spec_requested_the[of 10 l] in \<open>simp_all add: L_def\<close>)
  show ?thesis
    unfolding P_def[symmetric] L_def[symmetric]
    using sk sk0 sPL st
    by (simp add: getAllData_def pp pl find_page_def Let_def)
qed

lemma digits_of_1: "digits_of (Suc 0) = ''1''"
  by (simp add: digits_of.simps digit_char_def)

lemma example_db2:
  "fst (saveData example_id2 1000 1001 (fst (saveData example_id 1000 1001 [] example_body)) example_body)
     = [example_doc example_id, example_doc example_id2]"
proof -
  have "example_id2 \<notin> oid ` set [example_doc example_id]"
    by (simp add: example_doc_def example_id_def example_id2_def)
  from save_example[OF this] show ?thesis by (simp add: example_db)
qed

text \<open>
  Claim C9, amended, at a collection of two records and the request page 1, limit 1.
\<close>

theorem listing_hasMore_witness:
  "\<exists>r. getAllData
          (fst (saveData example_id2 1000 1001
                  (fst (saveData example_id 1000 1001 [] example_body)) example_body))
          (Some ''1'') (Some ''1'') = Some (Inr r)
       \<and> currentPage (list_pagination r) = 1 \<and> totalRecords (list_pagination r) = 2
       \<and> hasMore (list_pagination r)"
  using listing_hasMore[of "Some 1" "Some 1" "[example_doc example_id, example_doc example_id2]"]
  unfolding example_db2
  by (simp add: spec_requested_def digits_of_1 eval_nat_numeral)

lemma parseInt_examples:
  "parseInt '' 25abc'' = Exact 25" "parseInt ''-3'' = Exact (-3)" "parseInt ''0x1F'' = Exact 31"
  "parseInt ''abc'' = NaN" "parseInt ''0'' = Exact 0" "parseInt ''10'' = Exact 10"
  by (simp_all add: parseInt_def isSpace_def isDigit_def isHexDigit_def digits_value_def
                    digit_value_def safe_integer_def Let_def)

text \<open>
  Claim C9 as stated fails at the page 0: with one record and the request page 0, limit 10,
  \<open>page * limit = 0 < 1\<close>, but the handler takes 1 for the page, reports it as the current
  page, and reports \<open>hasMore\<close> as false.
\<close>

theorem listing_hasMore_counterexample:
  "(\<exists>r. getAllData (fst (saveData example_id 1000 1001 [] example_body)) (Some ''0'') (Some ''10'')
          = Some (Inr r)
        \<and> currentPage (list_pagination r) = 1
        \<and> \<not> hasMore (list_pagination r))
   \<and> (0 :: int) * 10 < int (length (fst (saveData example_id 1000 1001 [] example_body)))"
  by (simp add: example_db getAllData_def parseInt_or_def parseInt_examples find_page_def
                safe_integer_def Let_def)

end
